theory Spec2Isabelle
  imports Complex_Main "HOL-Library.Sublist" "HOL-Library.List_Lexorder" "HOL-Library.Char_ord"
    "HOL-Library.Product_Lexorder"
begin

section \<open>Python strings\<close>

text \<open>
  A Python \<^verbatim>\<open>str\<close> is modelled as a HOL \<^typ>\<open>string\<close>, a character standing for the code
  point of the same number: the model covers the strings over U+0000 to U+00FF. On these
  code points the \<^verbatim>\<open>str\<close> methods the repository calls (\<^verbatim>\<open>strip\<close>, \<^verbatim>\<open>isdigit\<close>,
  \<^verbatim>\<open>lower\<close>, \<^verbatim>\<open>join\<close>) are as Python defines them from the Unicode character database,
  and so is \<^verbatim>\<open>upper\<close>, which the specification speaks of.
\<close>

definition py_isspace_char :: "char \<Rightarrow> bool" where
  \<comment> \<open>The white space that \<^verbatim>\<open>strip()\<close> removes: TAB, LF, VT, FF, CR, FS, GS, RS, US, the
     space, NEL (U+0085) and the no-break space (U+00A0).\<close>
  "py_isspace_char c =
     (let n = of_char c :: nat
      in (9 \<le> n \<and> n \<le> 13) \<or> (28 \<le> n \<and> n \<le> 32) \<or> n = 133 \<or> n = 160)"

definition py_isdigit_char :: "char \<Rightarrow> bool" where
  \<comment> \<open>The characters \<^verbatim>\<open>str.isdigit\<close> accepts, those of numeric type Decimal or Digit:
     \<^verbatim>\<open>0\<close> to \<^verbatim>\<open>9\<close> and the superscripts two, three and one (U+00B2, U+00B3, U+00B9).\<close>
  "py_isdigit_char c =
     (let n = of_char c :: nat in (48 \<le> n \<and> n \<le> 57) \<or> n = 178 \<or> n = 179 \<or> n = 185)"

definition py_isdecimal_char :: "char \<Rightarrow> bool" where
  \<comment> \<open>The decimal digits (category Nd), the only characters of which \<^verbatim>\<open>int()\<close> reads a
     number: \<^verbatim>\<open>0\<close> to \<^verbatim>\<open>9\<close>.\<close>
  "py_isdecimal_char c = (let n = of_char c :: nat in 48 \<le> n \<and> n \<le> 57)"

definition py_strip :: "string \<Rightarrow> string" where
  \<comment> \<open>\<^verbatim>\<open>s.strip()\<close>: whitespace removed at both ends.\<close>
  "py_strip s = rev (dropWhile py_isspace_char (rev (dropWhile py_isspace_char s)))"

definition py_isdigit :: "string \<Rightarrow> bool" where
  \<comment> \<open>\<^verbatim>\<open>s.isdigit()\<close>: at least one character, and all of them digits.\<close>
  "py_isdigit s = (s \<noteq> [] \<and> list_all py_isdigit_char s)"

definition py_lower_char :: "char \<Rightarrow> char" where
  \<comment> \<open>The upper-case letters are \<^verbatim>\<open>A\<close> to \<^verbatim>\<open>Z\<close>, U+00C0 to U+00D6 and U+00D8 to U+00DE; the
     lower-case form of each lies 32 code points higher.\<close>
  "py_lower_char c =
     (let n = of_char c :: nat
      in if (65 \<le> n \<and> n \<le> 90) \<or> (192 \<le> n \<and> n \<le> 214) \<or> (216 \<le> n \<and> n \<le> 222)
         then char_of (n + 32) else c)"

definition py_upper_char :: "char \<Rightarrow> string option" where
  \<comment> \<open>The upper-case form of \<^verbatim>\<open>a\<close> to \<^verbatim>\<open>z\<close>, U+00E0 to U+00F6 and U+00F8 to U+00FE lies 32
     code points lower; that of the sharp s (U+00DF) is \<^verbatim>\<open>SS\<close>. Those of the micro sign
     (U+00B5) and of the y with diaeresis (U+00FF) are U+039C and U+0178, outside the
     code points of the model.\<close>
  "py_upper_char c =
     (let n = of_char c :: nat
      in if (97 \<le> n \<and> n \<le> 122) \<or> (224 \<le> n \<and> n \<le> 246) \<or> (248 \<le> n \<and> n \<le> 254)
         then Some [char_of (n - 32)]
         else if n = 223 then Some ''SS''
         else if n = 181 \<or> n = 255 then None
         else Some [c])"

definition py_lower :: "string \<Rightarrow> string" where
  "py_lower s = map py_lower_char s"

fun py_upper :: "string \<Rightarrow> string option" where
  \<comment> \<open>\<^verbatim>\<open>s.upper()\<close>, when it is a string of the model\<close>
  "py_upper [] = Some []"
| "py_upper (c # s) =
     (case py_upper_char c of
        None \<Rightarrow> None
      | Some u \<Rightarrow> (case py_upper s of None \<Rightarrow> None | Some r \<Rightarrow> Some (u @ r)))"

fun py_join :: "string \<Rightarrow> string list \<Rightarrow> string" where
  \<comment> \<open>\<^verbatim>\<open>sep.join(xs)\<close>\<close>
  "py_join sep [] = []"
| "py_join sep [x] = x"
| "py_join sep (x # y # ys) = x @ sep @ py_join sep (y # ys)"

section \<open>API\_Calls.py: the query parameter model\<close>

text \<open>The dataclass \<^verbatim>\<open>APIParams\<close>, field for field. \<^verbatim>\<open>datasets\<close> defaults to
  \<^verbatim>\<open>None\<close>, so it is an optional list.\<close>

record APIParams =
  substation :: string
  line :: string
  transformer :: string
  bus :: string
  feeder :: string
  start_date :: string
  end_date :: string
  interval_value :: string
  interval_unit :: string
  datasets :: "string list option"
  output_unit :: string
  coincidental_peaks :: bool
  multi_phase :: bool
  multi_phase_average :: bool

text \<open>A value of the dictionary that \<^verbatim>\<open>to_query_dict\<close> works on once the
  \<^verbatim>\<open>datasets\<close> entry has been joined (line 59): by the field types of the dataclass it
  is a \<^verbatim>\<open>str\<close> or a \<^verbatim>\<open>bool\<close>.\<close>

datatype qvalue = QStr string | QBool bool

fun py_str_qvalue :: "qvalue \<Rightarrow> string" where
  \<comment> \<open>\<^verbatim>\<open>str(v)\<close>\<close>
  "py_str_qvalue (QStr s) = s"
| "py_str_qvalue (QBool b) = (if b then ''True'' else ''False'')"

definition asdict_joined :: "APIParams \<Rightarrow> (string \<times> qvalue) list" where
  \<comment> \<open>Lines 53 to 59: \<^verbatim>\<open>asdict(self)\<close>, in field order, with \<^verbatim>\<open>d["datasets"]\<close> replaced
     by the empty string when it is \<^verbatim>\<open>None\<close> and by the comma-joined list otherwise.\<close>
  "asdict_joined p =
     [(''substation'', QStr (substation p)),
      (''line'', QStr (line p)),
      (''transformer'', QStr (transformer p)),
      (''bus'', QStr (bus p)),
      (''feeder'', QStr (feeder p)),
      (''start_date'', QStr (start_date p)),
      (''end_date'', QStr (end_date p)),
      (''interval_value'', QStr (interval_value p)),
      (''interval_unit'', QStr (interval_unit p)),
      (''datasets'', QStr (case datasets p of None \<Rightarrow> '''' | Some ds \<Rightarrow> py_join '','' ds)),
      (''output_unit'', QStr (output_unit p)),
      (''coincidental_peaks'', QBool (coincidental_peaks p)),
      (''multi_phase'', QBool (multi_phase p)),
      (''multi_phase_average'', QBool (multi_phase_average p))]"

fun convert_bool :: "qvalue \<Rightarrow> qvalue" where
  \<comment> \<open>Lines 61 to 65: a \<^verbatim>\<open>bool\<close> becomes \<^verbatim>\<open>"true"\<close> or \<^verbatim>\<open>"false"\<close>.\<close>
  "convert_bool (QBool b) = QStr (if b then ''true'' else ''false'')"
| "convert_bool (QStr s) = QStr s"

definition to_query_dict :: "APIParams \<Rightarrow> (string \<times> string) list" where
  \<comment> \<open>Line 68 keeps the entries whose \<^verbatim>\<open>str(v).strip()\<close> is not empty. The dictionary
     is an association list in insertion order.\<close>
  "to_query_dict p =
     map (\<lambda>(k, v). (k, py_str_qvalue v))
       (filter (\<lambda>(k, v). py_strip (py_str_qvalue v) \<noteq> '''')
         (map (\<lambda>(k, v). (k, convert_bool v)) (asdict_joined p)))"

definition py_or_str :: "string \<Rightarrow> string \<Rightarrow> string" where
  \<comment> \<open>\<^verbatim>\<open>a or b\<close> on strings: \<^verbatim>\<open>a\<close> unless it is empty.\<close>
  "py_or_str a b = (if a = '''' then b else a)"

definition dict_get_default :: "(string \<times> string) list \<Rightarrow> string \<Rightarrow> string \<Rightarrow> string" where
  \<comment> \<open>\<^verbatim>\<open>d.get(k, default)\<close>\<close>
  "dict_get_default d k dflt = (case map_of d k of Some v \<Rightarrow> v | None \<Rightarrow> dflt)"

definition build_api_params ::
  "(string \<times> string) list \<Rightarrow> string \<Rightarrow> string \<Rightarrow> string \<Rightarrow> string \<Rightarrow>
   string list option \<Rightarrow> string \<Rightarrow> bool \<Rightarrow> bool \<Rightarrow> bool \<Rightarrow> APIParams" where
  "build_api_params device_params start_d end_d interval_v interval_u dsets out_unit
     coincidental multi multi_avg =
     (let iv = py_strip interval_v;
          iv = (if \<not> py_isdigit iv then ''0'' else iv)
      in \<lparr> substation = dict_get_default device_params ''substation'' '''',
           line = dict_get_default device_params ''line'' '''',
           transformer = dict_get_default device_params ''transformer'' '''',
           bus = dict_get_default device_params ''bus'' '''',
           feeder = dict_get_default device_params ''feeder'' '''',
           start_date = start_d,
           end_date = end_d,
           interval_value = iv,
           interval_unit = py_or_str interval_u ''minute'',
           datasets = Some (case dsets of None \<Rightarrow> [] | Some ds \<Rightarrow> ds),
           output_unit = py_or_str out_unit ''Amp'',
           coincidental_peaks = coincidental,
           multi_phase = multi,
           multi_phase_average = (if multi then multi_avg else False) \<rparr>)"

text \<open>
  What the comments of lines 37 and 84 call a numeric string, and the specification a
  non-negative integer string: at least one character, all of them decimal digits.
\<close>

definition nonneg_integer_string :: "string \<Rightarrow> bool" where
  "nonneg_integer_string s = (s \<noteq> [] \<and> list_all py_isdecimal_char s)"

text \<open>An interval string that the entry field can hold: the single character U+00B2, the
  superscript two.\<close>

definition superscript_two :: string where
  "superscript_two = [CHR 0xB2]"

text \<open>The configuration dataclass \<^verbatim>\<open>APIConfig\<close>.\<close>

record APIConfig =
  base_url :: string
  use_kerberos :: bool
  username :: "string option"
  password :: "string option"
  timeout_seconds :: nat

text \<open>
  What \<^verbatim>\<open>execute_query\<close> depends on outside the program: whether the optional PI Web
  API client library was imported, whether constructing its client raises (with the
  text of the exception), and what \<^verbatim>\<open>requests.get\<close> does with a URL, query parameters,
  credentials and a timeout: it raises (\<^const>\<open>Inl\<close>, with the text) or returns a status and a
  body.
\<close>

record network =
  pi_client_available :: bool
  make_pi_client_error :: "APIConfig \<Rightarrow> string option"
  requests_get ::
    "string \<Rightarrow> (string \<times> string) list \<Rightarrow> (string \<times> string) option \<Rightarrow> nat \<Rightarrow>
     string + nat \<times> string"

definition execute_query :: "network \<Rightarrow> APIConfig \<Rightarrow> APIParams \<Rightarrow> nat \<times> string" where
  "execute_query net cfg api_params =
     (let query_dict = to_query_dict api_params in
      if pi_client_available net
      then (case make_pi_client_error net cfg of
              None \<Rightarrow>
                (200, ''PIWebApiClient connected successfully (stub). Provide concrete calls here.'')
            | Some ex \<Rightarrow> (500, ''PIWebApiClient error: '' @ ex))
      else
        (let auth = (case (username cfg, password cfg) of
                       (Some u, Some p) \<Rightarrow>
                         if \<not> use_kerberos cfg \<and> u \<noteq> '''' \<and> p \<noteq> '''' then Some (u, p) else None
                     | _ \<Rightarrow> None)
         in case requests_get net (base_url cfg) query_dict auth (timeout_seconds cfg) of
              Inl ex \<Rightarrow> (500, ''HTTP error: '' @ ex)
            | Inr (status, text) \<Rightarrow> (status, text)))"

fun digits_of :: "nat \<Rightarrow> nat \<Rightarrow> string" where
  \<comment> \<open>the decimal digits of \<^verbatim>\<open>n\<close>, most significant first; the first argument bounds
     their number\<close>
  "digits_of 0 n = []"
| "digits_of (Suc fuel) n =
     (if n < 10 then [char_of (48 + n)]
      else digits_of fuel (n div 10) @ [char_of (48 + n mod 10)])"

definition py_str_nat :: "nat \<Rightarrow> string" where
  \<comment> \<open>\<^verbatim>\<open>str(n)\<close> for a natural number; \<^verbatim>\<open>n\<close> has at most \<^verbatim>\<open>n + 1\<close> digits\<close>
  "py_str_nat n = digits_of (Suc n) n"

section \<open>Python values and exceptions\<close>

text \<open>
  What \<^verbatim>\<open>json.loads\<close> and \<^verbatim>\<open>Response.json()\<close> return, and what a cell of a data frame
  holds: \<^verbatim>\<open>None\<close> (also standing for NaN, NaT and \<^verbatim>\<open>pd.NA\<close>), a boolean, a number (an
  \<^verbatim>\<open>int\<close> or a \<^verbatim>\<open>float\<close>, read as the real number it denotes), a string, a list, a
  dictionary (an association list in insertion order, looked up with \<^const>\<open>map_of\<close>), or a
  pandas timestamp (nanoseconds since the epoch).
\<close>

datatype pyval =
    PNone
  | PBool bool
  | PNum real
  | PStr string
  | PList "pyval list"
  | PDict "(string \<times> pyval) list"
  | PTime int

text \<open>The exceptions the modelled code raises or lets through. \<^verbatim>\<open>PINotFound\<close> and
  \<^verbatim>\<open>ValueError\<close> carry the message the source formats.\<close>

datatype exn =
    PINotFound string
  | PIWebAPIError
  | AttributeError
  | TypeError
  | IndexError
  | KeyError
  | ValueError string
  | InvalidIndexError

fun truthy :: "pyval \<Rightarrow> bool" where
  \<comment> \<open>the truth value Python gives an object in \<^verbatim>\<open>if\<close>, \<^verbatim>\<open>not\<close> and \<^verbatim>\<open>or\<close>\<close>
  "truthy PNone = False"
| "truthy (PBool b) = b"
| "truthy (PNum x) = (x \<noteq> 0)"
| "truthy (PStr s) = (s \<noteq> [])"
| "truthy (PList xs) = (xs \<noteq> [])"
| "truthy (PDict d) = (d \<noteq> [])"
| "truthy (PTime t) = True"

fun py_iter :: "pyval \<Rightarrow> exn + pyval list" where
  \<comment> \<open>what a \<^verbatim>\<open>for\<close> loop over the object yields: a dictionary yields its keys, a string
     its characters; the other objects are not iterable\<close>
  "py_iter (PList xs) = Inr xs"
| "py_iter (PDict d) = Inr (map (\<lambda>(k, v). PStr k) d)"
| "py_iter (PStr s) = Inr (map (\<lambda>c. PStr [c]) s)"
| "py_iter v = Inl TypeError"

definition dict_get :: "(string \<times> pyval) list \<Rightarrow> string \<Rightarrow> pyval \<Rightarrow> pyval" where
  \<comment> \<open>\<^verbatim>\<open>d.get(k, default)\<close> on a dictionary\<close>
  "dict_get d k dflt = (case map_of d k of Some v \<Rightarrow> v | None \<Rightarrow> dflt)"

definition py_get :: "pyval \<Rightarrow> string \<Rightarrow> pyval \<Rightarrow> exn + pyval" where
  \<comment> \<open>\<^verbatim>\<open>v.get(k, default)\<close> on any object: only a dictionary has the method\<close>
  "py_get v k dflt = (case v of PDict m \<Rightarrow> Inr (dict_get m k dflt) | _ \<Rightarrow> Inl AttributeError)"

section \<open>DataLinkWrapper.py: the tag resolver\<close>

text \<open>
  The HTTP session is the environment. A request either raises a
  \<^verbatim>\<open>requests.RequestException\<close> (\<^const>\<open>Inl\<close>, with its text) or returns a response, of
  which the code reads the status, the URL and the body decoded as JSON (\<^const>\<open>None\<close>
  when \<^verbatim>\<open>r.json()\<close> fails to decode it).
\<close>

record response =
  status_code :: nat
  url :: string
  json_body :: "pyval option"

type_synonym session = "string \<Rightarrow> (string \<times> string) list \<Rightarrow> string + response"

definition PIClient_get :: "session \<Rightarrow> string \<Rightarrow> (string \<times> string) list \<Rightarrow> exn + pyval" where
  \<comment> \<open>\<^verbatim>\<open>PIClient._get\<close>. Status 404 raises \<^verbatim>\<open>PINotFound\<close>, which the handler for
     \<^verbatim>\<open>RequestException\<close> does not catch; \<^verbatim>\<open>raise_for_status\<close> raises for the other
     statuses from 400 to 599, and the handler turns that, a failed request and an
     undecodable body into \<^verbatim>\<open>PIWebAPIError\<close>.\<close>
  "PIClient_get session_get u params =
     (case session_get u params of
        Inl e \<Rightarrow> Inl PIWebAPIError
      | Inr r \<Rightarrow>
          if status_code r = 404 then Inl (PINotFound (''Resource not found: '' @ url r))
          else if 400 \<le> status_code r \<and> status_code r < 600 then Inl PIWebAPIError
          else (case json_body r of None \<Rightarrow> Inl PIWebAPIError | Some j \<Rightarrow> Inr j))"

definition name_lower :: "pyval \<Rightarrow> exn + string" where
  \<comment> \<open>\<^verbatim>\<open>it.get("Name", "").lower()\<close>: \<^verbatim>\<open>it\<close> must be a dictionary and the name a string\<close>
  "name_lower it =
     (case py_get it ''Name'' (PStr '''') of
        Inl e \<Rightarrow> Inl e
      | Inr (PStr s) \<Rightarrow> Inr (py_lower s)
      | Inr v \<Rightarrow> Inl AttributeError)"

fun exact_matches :: "string \<Rightarrow> pyval list \<Rightarrow> exn + pyval list" where
  \<comment> \<open>the list comprehension of line 90, in the order of the items\<close>
  "exact_matches tag [] = Inr []"
| "exact_matches tag (it # its) =
     (case name_lower it of
        Inl e \<Rightarrow> Inl e
      | Inr n \<Rightarrow>
          (case exact_matches tag its of
             Inl e \<Rightarrow> Inl e
           | Inr r \<Rightarrow> Inr (if n = py_lower tag then it # r else r)))"

definition get_point_webid :: "session \<Rightarrow> string \<Rightarrow> string \<Rightarrow> exn + pyval" where
  \<comment> \<open>the body of \<^verbatim>\<open>PIClient.get_point_webid\<close>; \<^verbatim>\<open>base\<close> is \<^verbatim>\<open>self.base\<close>\<close>
  "get_point_webid session_get base tag =
     (case PIClient_get session_get (base @ ''/points'') [(''nameFilter'', tag)] of
        Inl e \<Rightarrow> Inl e
      | Inr data \<Rightarrow>
          (case py_get data ''Items'' (PList []) of
             Inl e \<Rightarrow> Inl e
           | Inr items \<Rightarrow>
               if \<not> truthy items then Inl (PINotFound (''Tag not found: '' @ tag))
               else
                 (case py_iter items of
                    Inl e \<Rightarrow> Inl e
                  | Inr its \<Rightarrow>
                      (case exact_matches tag its of
                         Inl e \<Rightarrow> Inl e
                       | Inr exact \<Rightarrow>
                           (case (if exact \<noteq> [] then exact else its) of
                              [] \<Rightarrow> Inl IndexError
                            | sel # rest \<Rightarrow>
                                (case py_get sel ''WebId'' PNone of
                                   Inl e \<Rightarrow> Inl e
                                 | Inr webid \<Rightarrow>
                                     if \<not> truthy webid
                                     then Inl (PINotFound (''No WebId for tag: '' @ tag))
                                     else Inr webid))))))"

definition lru_maxsize :: nat where
  "lru_maxsize = 4096"

definition get_point_webid_cached ::
  "session \<Rightarrow> string \<Rightarrow> (string \<times> pyval) list \<Rightarrow> string \<Rightarrow>
   (exn + pyval) \<times> (string \<times> pyval) list" where
  \<comment> \<open>The method under \<^verbatim>\<open>@lru_cache(maxsize=4096)\<close>, for one client. The cache is the list
     of its entries, most recently used first, keyed by the tag as passed. A hit returns
     the stored value and moves the entry to the front; a miss runs the body, and stores
     the result only when the body returns, dropping the oldest entry when full.\<close>
  "get_point_webid_cached session_get base cache tag =
     (case map_of cache tag of
        Some v \<Rightarrow> (Inr v, (tag, v) # filter (\<lambda>(k, w). k \<noteq> tag) cache)
      | None \<Rightarrow>
          (case get_point_webid session_get base tag of
             Inl e \<Rightarrow> (Inl e, cache)
           | Inr v \<Rightarrow> (Inr v, take lru_maxsize ((tag, v) # cache))))"

subsection \<open>The resolution algorithm in the specification's words\<close>

text \<open>A candidate is a point object: a dictionary whose \<^verbatim>\<open>Name\<close>, when it has one, is a
  string.\<close>

definition candidate_ok :: "pyval \<Rightarrow> bool" where
  "candidate_ok it =
     (case it of
        PDict m \<Rightarrow>
          (case map_of m ''Name'' of None \<Rightarrow> True | Some (PStr s) \<Rightarrow> True | Some v \<Rightarrow> False)
      | _ \<Rightarrow> False)"

definition candidate_name :: "pyval \<Rightarrow> string" where
  "candidate_name it =
     (case it of
        PDict m \<Rightarrow> (case map_of m ''Name'' of Some (PStr s) \<Rightarrow> s | _ \<Rightarrow> '''')
      | _ \<Rightarrow> '''')"

definition candidate_webid :: "pyval \<Rightarrow> pyval" where
  "candidate_webid it =
     (case it of
        PDict m \<Rightarrow> (case map_of m ''WebId'' of Some v \<Rightarrow> v | None \<Rightarrow> PNone)
      | _ \<Rightarrow> PNone)"

definition select_candidate_spec :: "string \<Rightarrow> pyval list \<Rightarrow> pyval" where
  \<comment> \<open>the case-insensitive exact match if one exists (the first of them), else the first
     candidate in the order the provider returned them\<close>
  "select_candidate_spec tag items =
     (case find (\<lambda>it. py_lower (candidate_name it) = py_lower tag) items of
        Some it \<Rightarrow> it
      | None \<Rightarrow> hd items)"

definition resolve_spec :: "string \<Rightarrow> pyval list \<Rightarrow> exn + pyval" where
  \<comment> \<open>not found when there is no candidate or the selected one has no usable identifier,
     else the selected candidate's identifier\<close>
  "resolve_spec tag items =
     (if items = [] then Inl (PINotFound (''Tag not found: '' @ tag))
      else if truthy (candidate_webid (select_candidate_spec tag items))
        then Inr (candidate_webid (select_candidate_spec tag items))
      else Inl (PINotFound (''No WebId for tag: '' @ tag)))"

text \<open>A provider that answers every request with the same two candidates.\<close>

definition demo_points :: pyval where
  "demo_points = PDict [(''Items'', PList
     [PDict [(''Name'', PStr ''Foo2''), (''WebId'', PStr ''W2'')],
      PDict [(''Name'', PStr ''Foo''), (''WebId'', PStr ''W1'')]])]"

definition demo_session :: session where
  "demo_session u params = Inr \<lparr> status_code = 200, url = u, json_body = Some demo_points \<rparr>"


subsection \<open>The two casings of a name\<close>

definition first_exact_match :: "string \<Rightarrow> pyval list \<Rightarrow> pyval option" where
  \<comment> \<open>the first candidate whose name is the given one but for case, as line 90 compares
     them: by their lower-cased forms\<close>
  "first_exact_match name items =
     find (\<lambda>it. py_lower (candidate_name it) = py_lower name) items"

text \<open>
  A name with a sharp s, U+00DF, and its upper-cased form, in which \<^verbatim>\<open>SS\<close> stands for the
  sharp s; and a provider that answers every request with two candidates, the second of
  them of that name.
\<close>

definition groesse :: string where
  "groesse = ''Gr'' @ [CHR 0xF6, CHR 0xDF] @ ''e''"

definition groesse_upper :: string where
  "groesse_upper = ''GR'' @ [CHR 0xD6] @ ''SSE''"

definition groesse_points :: pyval where
  "groesse_points = PDict [(''Items'', PList
     [PDict [(''Name'', PStr (groesse @ ''2'')), (''WebId'', PStr ''W2'')],
      PDict [(''Name'', PStr groesse), (''WebId'', PStr ''W1'')]])]"

definition groesse_session :: session where
  "groesse_session u params =
     Inr \<lparr> status_code = 200, url = u, json_body = Some groesse_points \<rparr>"

text \<open>A provider whose only candidate has the name asked for and an empty identifier.\<close>

definition unusable_points :: pyval where
  "unusable_points = PDict [(''Items'', PList
     [PDict [(''Name'', PStr ''Foo''), (''WebId'', PStr '''')]])]"

definition unusable_session :: session where
  "unusable_session u params =
     Inr \<lparr> status_code = 200, url = u, json_body = Some unusable_points \<rparr>"
section \<open>pandas data frames\<close>

text \<open>
  A data frame is modelled by its number of rows and its columns in order, each a
  label with one cell per row. Labels may repeat, as in pandas. The index is always the
  default one (the code passes \<^verbatim>\<open>ignore_index=True\<close> or resets it), so rows are known by
  position. The operations below are those of pandas that the repository calls, each
  with the exception it raises as a result.
\<close>

record frame =
  nrows :: nat
  columns :: "(string \<times> pyval list) list"

definition wf_frame :: "frame \<Rightarrow> bool" where
  \<comment> \<open>every column has one cell per row\<close>
  "wf_frame f = list_all (\<lambda>(k, c). length c = nrows f) (columns f)"

definition empty_frame :: frame where
  \<comment> \<open>\<^verbatim>\<open>pd.DataFrame()\<close>\<close>
  "empty_frame = \<lparr> nrows = 0, columns = [] \<rparr>"

definition df_empty :: "frame \<Rightarrow> bool" where
  \<comment> \<open>\<^verbatim>\<open>df.empty\<close>: no row or no column\<close>
  "df_empty f = (nrows f = 0 \<or> columns f = [])"

definition col_names :: "frame \<Rightarrow> string list" where
  \<comment> \<open>\<^verbatim>\<open>df.columns\<close>\<close>
  "col_names f = map fst (columns f)"

definition has_col :: "frame \<Rightarrow> string \<Rightarrow> bool" where
  \<comment> \<open>\<^verbatim>\<open>c in df.columns\<close>, also written \<^verbatim>\<open>c in df\<close>\<close>
  "has_col f c = (c \<in> set (col_names f))"

definition and_then :: "exn + 'a \<Rightarrow> ('a \<Rightarrow> exn + 'b) \<Rightarrow> exn + 'b" where
  \<comment> \<open>sequencing: an exception of the first step is the result\<close>
  "and_then m f = (case m of Inl e \<Rightarrow> Inl e | Inr x \<Rightarrow> f x)"

definition first_seen :: "'a list \<Rightarrow> 'a list" where
  \<comment> \<open>the distinct elements in the order of their first occurrence\<close>
  "first_seen xs = rev (remdups (rev xs))"

fun is_dict :: "pyval \<Rightarrow> bool" where
  "is_dict (PDict d) = True"
| "is_dict v = False"

fun is_list :: "pyval \<Rightarrow> bool" where
  "is_list (PList xs) = True"
| "is_list v = False"

fun dict_items :: "pyval \<Rightarrow> (string \<times> pyval) list" where
  "dict_items (PDict d) = d"
| "dict_items v = []"

definition DataFrame_records :: "pyval list \<Rightarrow> exn + frame" where
  \<comment> \<open>\<^verbatim>\<open>pd.DataFrame(items)\<close> for a list whose first element is a dictionary: one row per
     dictionary, one column per key in the order the keys are first seen, a missing key
     giving a null cell. An element that is not a dictionary has no \<^verbatim>\<open>keys\<close>.\<close>
  "DataFrame_records items =
     (if list_all is_dict items
      then let ds = map dict_items items;
               keys = first_seen (concat (map (map fst) ds))
           in Inr \<lparr> nrows = length ds,
                    columns = map (\<lambda>k. (k, map (\<lambda>d. dict_get d k PNone) ds)) keys \<rparr>
      else Inl AttributeError)"

definition DataFrame_two_columns :: "string \<Rightarrow> pyval list \<Rightarrow> string \<Rightarrow> pyval \<Rightarrow> exn + frame" where
  \<comment> \<open>\<^verbatim>\<open>pd.DataFrame({a: xs, b: v})\<close> with \<^verbatim>\<open>xs\<close> a list: a list \<^verbatim>\<open>v\<close> must have the same
     length, a dictionary is refused next to a list, a scalar is repeated on every row\<close>
  "DataFrame_two_columns a xs b v =
     (case v of
        PList ys \<Rightarrow>
          if length ys = length xs
          then Inr \<lparr> nrows = length xs, columns = [(a, xs), (b, ys)] \<rparr>
          else Inl (ValueError ''All arrays must be of the same length'')
      | PDict d \<Rightarrow> Inl (ValueError ''Mixing dicts with non-Series may lead to ambiguous ordering.'')
      | _ \<Rightarrow> Inr \<lparr> nrows = length xs, columns = [(a, xs), (b, replicate (length xs) v)] \<rparr>)"

definition put_column :: "string \<Rightarrow> pyval list \<Rightarrow> frame \<Rightarrow> frame" where
  \<comment> \<open>the cells of \<^verbatim>\<open>df[name]\<close> replaced, or the column appended when the label is new\<close>
  "put_column name cells f =
     (if has_col f name
      then f \<lparr> columns := map (\<lambda>(k, c). if k = name then (k, cells) else (k, c)) (columns f) \<rparr>
      else f \<lparr> columns := columns f @ [(name, cells)] \<rparr>)"

definition set_column :: "string \<Rightarrow> pyval \<Rightarrow> frame \<Rightarrow> exn + frame" where
  \<comment> \<open>\<^verbatim>\<open>df[name] = v\<close>. A scalar is repeated on every row. A list must have one element per
     row, except that a frame without rows takes its rows from a non-empty list. A
     dictionary is aligned on the index by its keys; its keys are strings and the index
     is positional, so every cell is null.\<close>
  "set_column name v f =
     (case v of
        PList xs \<Rightarrow>
          if nrows f = 0 \<and> xs \<noteq> []
          then Inr (put_column name xs
                 \<lparr> nrows = length xs,
                   columns = map (\<lambda>(k, c). (k, replicate (length xs) PNone)) (columns f) \<rparr>)
          else if length xs = nrows f then Inr (put_column name xs f)
          else Inl (ValueError ''Length of values does not match length of index'')
      | PDict d \<Rightarrow> Inr (put_column name (replicate (nrows f) PNone) f)
      | _ \<Rightarrow> Inr (put_column name (replicate (nrows f) v) f))"

definition select_columns :: "string list \<Rightarrow> frame \<Rightarrow> exn + frame" where
  \<comment> \<open>\<^verbatim>\<open>df[names]\<close>: for each requested label, in the order requested, every column that
     carries it; a label the frame does not have is a \<^verbatim>\<open>KeyError\<close>\<close>
  "select_columns names f =
     (if list_all (has_col f) names
      then Inr (f \<lparr> columns := concat (map (\<lambda>n. filter (\<lambda>(k, c). k = n) (columns f)) names) \<rparr>)
      else Inl KeyError)"

definition column_or_nulls :: "frame \<Rightarrow> string \<Rightarrow> pyval list" where
  \<comment> \<open>the cells a frame contributes to a column of a concatenation: its own column, or
     nulls when it has none of that label\<close>
  "column_or_nulls f k =
     (case map_of (columns f) k of Some c \<Rightarrow> c | None \<Rightarrow> replicate (nrows f) PNone)"

definition concat_frames :: "frame list \<Rightarrow> exn + frame" where
  \<comment> \<open>\<^verbatim>\<open>pd.concat(frames, ignore_index=True)\<close>. Frames with unique labels are stacked on
     the union of their labels, in the order first seen. With a repeated label the frames
     can only be stacked when all have the same labels in the same order.\<close>
  "concat_frames fs =
     (if fs = [] then Inl (ValueError ''No objects to concatenate'')
      else if list_all (\<lambda>f. distinct (col_names f)) fs
      then let keys = first_seen (concat (map col_names fs))
           in Inr \<lparr> nrows = sum_list (map nrows fs),
                    columns = map (\<lambda>k. (k, concat (map (\<lambda>f. column_or_nulls f k) fs))) keys \<rparr>
      else if list_all (\<lambda>f. col_names f = col_names (hd fs)) fs
      then Inr \<lparr> nrows = sum_list (map nrows fs),
                 columns = map (\<lambda>j. (col_names (hd fs) ! j,
                                      concat (map (\<lambda>f. snd (columns f ! j)) fs)))
                             [0..<length (columns (hd fs))] \<rparr>
      else Inl InvalidIndexError)"

definition take_rows :: "nat list \<Rightarrow> frame \<Rightarrow> frame" where
  \<comment> \<open>the rows at the given positions, in that order\<close>
  "take_rows idx f =
     \<lparr> nrows = length idx, columns = map (\<lambda>(k, c). (k, map (\<lambda>i. c ! i) idx)) (columns f) \<rparr>"

definition dropna_subset :: "string \<Rightarrow> frame \<Rightarrow> exn + frame" where
  \<comment> \<open>\<^verbatim>\<open>df.dropna(subset=[name])\<close>: the rows with a null cell under the label are dropped\<close>
  "dropna_subset name f =
     (if has_col f name
      then Inr (take_rows
             (filter (\<lambda>i. \<forall>(k, c) \<in> set (columns f). k = name \<longrightarrow> c ! i \<noteq> PNone) [0..<nrows f]) f)
      else Inl KeyError)"

fun time_key :: "pyval \<Rightarrow> nat \<times> int" where
  \<comment> \<open>the order of a datetime column: timestamps by value, nulls last\<close>
  "time_key (PTime t) = (0, t)"
| "time_key v = (1, 0)"

definition sort_values :: "string \<Rightarrow> frame \<Rightarrow> exn + frame" where
  \<comment> \<open>\<^verbatim>\<open>df.sort_values(name)\<close> on a datetime column. The label must be there, and only
     once. Rows with equal timestamps keep their order here; pandas leaves their order
     open.\<close>
  "sort_values name f =
     (case filter (\<lambda>(k, c). k = name) (columns f) of
        [] \<Rightarrow> Inl KeyError
      | [(k, c)] \<Rightarrow> Inr (take_rows (sort_key (\<lambda>i. time_key (c ! i)) [0..<nrows f]) f)
      | _ \<Rightarrow> Inl (ValueError ''The column label is not unique''))"

section \<open>Graphs.py: the response normalizer\<close>

text \<open>
  The library functions whose result on a text cannot be written down here are
  parameters: \<^verbatim>\<open>json.loads\<close> and \<^verbatim>\<open>pd.read_csv\<close> (each returns a value or raises), and
  the conversions \<^verbatim>\<open>pd.to_datetime(col, errors='coerce')\<close>,
  \<^verbatim>\<open>pd.to_numeric(col, errors='coerce')\<close> and \<^verbatim>\<open>astype(str)\<close>. A conversion of a column
  gives, for each row, the converted cell or nothing (NaT, NaN); it may look at the whole
  column, as the date format inference of pandas does.
\<close>

record pandas_lib =
  json_loads :: "string \<Rightarrow> exn + pyval"
  read_csv :: "string \<Rightarrow> exn + frame"
  to_datetime :: "pyval list \<Rightarrow> nat \<Rightarrow> int option"
  to_numeric :: "pyval list \<Rightarrow> nat \<Rightarrow> real option"
  astype_str :: "pyval \<Rightarrow> string"

definition to_datetime_column :: "pandas_lib \<Rightarrow> pyval list \<Rightarrow> pyval list" where
  "to_datetime_column L xs =
     map (\<lambda>i. case to_datetime L xs i of Some t \<Rightarrow> PTime t | None \<Rightarrow> PNone) [0..<length xs]"

definition to_numeric_column :: "pandas_lib \<Rightarrow> pyval list \<Rightarrow> pyval list" where
  "to_numeric_column L xs =
     map (\<lambda>i. case to_numeric L xs i of Some x \<Rightarrow> PNum x | None \<Rightarrow> PNone) [0..<length xs]"

definition py_or :: "pyval \<Rightarrow> pyval \<Rightarrow> pyval" where
  \<comment> \<open>\<^verbatim>\<open>a or b\<close>\<close>
  "py_or a b = (if truthy a then a else b)"

definition canonical_key :: "string \<Rightarrow> string" where
  \<comment> \<open>the new label \<^verbatim>\<open>_rename_common_keys\<close> maps a column label to; a label in no group
     is kept\<close>
  "canonical_key c =
     (let lc = py_lower c in
      if lc \<in> set [''timestamp'', ''time'', ''datetime'', ''localtimestamp'', ''utcseconds'']
        then ''timestamp''
      else if lc \<in> set [''value'', ''val'', ''doublevalue'', ''numericvalue''] then ''value''
      else if lc \<in> set [''name'', ''tag'', ''point'', ''path'', ''label''] then ''tag''
      else if lc \<in> set [''units'', ''unit'', ''unitsabbreviation''] then ''unit''
      else if lc \<in> set [''summarytype'', ''stat'', ''type''] then ''stat''
      else c)"

definition rename_common_keys :: "frame \<Rightarrow> frame" where
  \<comment> \<open>\<^verbatim>\<open>_rename_common_keys\<close>: \<^verbatim>\<open>df.rename(columns=mapping, inplace=True)\<close>\<close>
  "rename_common_keys f = f \<lparr> columns := map (\<lambda>(k, c). (canonical_key k, c)) (columns f) \<rparr>"

definition series_frame :: "pyval \<Rightarrow> exn + frame option" where
  \<comment> \<open>The body of the loop of variant 1 (lines 231 to 244) for one series: the frame it
     appends to \<^verbatim>\<open>frames\<close>, if any.\<close>
  "series_frame series =
     and_then (py_get series ''Name'' PNone) (\<lambda>name.
     and_then (py_get series ''Label'' PNone) (\<lambda>label.
     and_then (py_get series ''Path'' PNone) (\<lambda>path.
     and_then (py_get series ''WebId'' PNone) (\<lambda>webid.
     and_then (py_get series ''UnitsAbbreviation'' PNone) (\<lambda>units_abbr.
     and_then (py_get series ''Unit'' PNone) (\<lambda>unit1.
     and_then (py_get series ''Stat'' PNone) (\<lambda>stat1.
     and_then (py_get series ''SummaryType'' PNone) (\<lambda>summary_type.
     and_then (py_get series ''Items'' PNone) (\<lambda>items0.
       let tag = py_or (py_or (py_or name label) path) webid;
           unit = py_or units_abbr unit1;
           stat = py_or stat1 summary_type;
           items = py_or items0 (PList [])
       in (case items of
             PList (PDict d # rest) \<Rightarrow>
               and_then (DataFrame_records (PDict d # rest)) (\<lambda>f0.
                 let f = rename_common_keys f0 in
                 if has_col f ''timestamp'' \<and> has_col f ''value''
                 then
                   and_then (set_column ''tag'' tag f) (\<lambda>f.
                   and_then (if unit \<noteq> PNone \<and> \<not> has_col f ''unit''
                             then set_column ''unit'' unit f else Inr f) (\<lambda>f.
                   and_then (if stat \<noteq> PNone \<and> \<not> has_col f ''stat''
                             then set_column ''stat'' stat f else Inr f) (\<lambda>f.
                   and_then (select_columns
                       ([''timestamp'', ''value'']
                          @ filter (has_col f) [''tag'', ''stat'', ''unit'']) f) (\<lambda>g.
                     Inr (Some g)))))
                 else Inr None)
           | _ \<Rightarrow> Inr None))))))))))"

fun collect_frames :: "pyval list \<Rightarrow> exn + frame list" where
  \<comment> \<open>the loop \<^verbatim>\<open>for series in obj["Items"]\<close>, which stops at the first exception\<close>
  "collect_frames [] = Inr []"
| "collect_frames (series # rest) =
     and_then (series_frame series) (\<lambda>r.
     and_then (collect_frames rest) (\<lambda>frames.
       Inr (case r of Some g \<Rightarrow> g # frames | None \<Rightarrow> frames)))"

definition variant1 :: "pyval list \<Rightarrow> exn + frame option" where
  \<comment> \<open>Lines 228 to 246, for the list \<^verbatim>\<open>obj["Items"]\<close>: the frame returned, if any\<close>
  "variant1 items =
     (case items of
        PDict d # rest \<Rightarrow>
          if ''Items'' \<in> fst ` set d
          then and_then (collect_frames items) (\<lambda>frames.
                 if frames \<noteq> [] then and_then (concat_frames frames) (\<lambda>g. Inr (Some g))
                 else Inr None)
          else Inr None
      | _ \<Rightarrow> Inr None)"

definition variant2 :: "pyval list \<Rightarrow> exn + frame option" where
  \<comment> \<open>Lines 249 to 254, for the list \<^verbatim>\<open>obj["Items"]\<close>: the frame returned, if any\<close>
  "variant2 items =
     (case items of
        PDict d # rest \<Rightarrow>
          and_then (DataFrame_records items) (\<lambda>f0.
            let f = rename_common_keys f0;
                keep = filter (has_col f) [''timestamp'', ''value'', ''tag'', ''stat'', ''unit'']
            in if ''timestamp'' \<in> set keep \<and> ''value'' \<in> set keep
               then and_then (select_columns keep f) (\<lambda>g. Inr (Some g))
               else Inr None)
      | _ \<Rightarrow> Inr None)"

fun substring :: "string \<Rightarrow> string \<Rightarrow> bool" where
  \<comment> \<open>\<^verbatim>\<open>sub in s\<close> on strings\<close>
  "substring sub [] = (sub = [])"
| "substring sub (c # cs) = (prefix sub (c # cs) \<or> substring sub cs)"

fun py_contains :: "pyval \<Rightarrow> string \<Rightarrow> exn + bool" where
  \<comment> \<open>\<^verbatim>\<open>k in obj\<close> for a string \<^verbatim>\<open>k\<close>: a key of a dictionary, an element of a list, a
     substring of a string; the other objects are not containers\<close>
  "py_contains (PDict d) k = Inr (k \<in> fst ` set d)"
| "py_contains (PList xs) k = Inr (PStr k \<in> set xs)"
| "py_contains (PStr s) k = Inr (substring k s)"
| "py_contains v k = Inl TypeError"

fun py_getitem :: "pyval \<Rightarrow> string \<Rightarrow> exn + pyval" where
  \<comment> \<open>\<^verbatim>\<open>obj[k]\<close> for a string \<^verbatim>\<open>k\<close>: only a dictionary is indexed by a string\<close>
  "py_getitem (PDict d) k = (case map_of d k of Some v \<Rightarrow> Inr v | None \<Rightarrow> Inl KeyError)"
| "py_getitem v k = Inl TypeError"

definition variant3 :: "pyval \<Rightarrow> exn + frame option" where
  \<comment> \<open>Lines 257 to 262: the frame returned, if any. Past the test, \<^verbatim>\<open>obj\<close> is a
     dictionary, so \<^verbatim>\<open>obj.get\<close> is a lookup.\<close>
  "variant3 obj =
     and_then (py_contains obj ''Timestamps'') (\<lambda>has_ts.
     and_then (if has_ts then py_contains obj ''Values'' else Inr False) (\<lambda>has_both.
       if \<not> has_both then Inr None
       else
         and_then (py_getitem obj ''Timestamps'') (\<lambda>ts.
           case ts of
             PList xs \<Rightarrow>
               and_then (py_getitem obj ''Values'') (\<lambda>vals.
               and_then (DataFrame_two_columns ''timestamp'' xs ''value'' vals) (\<lambda>f.
               and_then (py_get obj ''Name'' PNone) (\<lambda>name.
               and_then (py_get obj ''Label'' PNone) (\<lambda>label.
               and_then (py_get obj ''Path'' PNone) (\<lambda>path.
               and_then (set_column ''tag'' (py_or (py_or name label) path) f) (\<lambda>f.
               and_then (py_get obj ''UnitsAbbreviation'' PNone) (\<lambda>units_abbr.
               and_then (if truthy units_abbr then set_column ''unit'' units_abbr f
                         else Inr f) (\<lambda>f.
                 Inr (Some f)))))))))
           | _ \<Rightarrow> Inr None)))"

definition parse_json_variants :: "pyval \<Rightarrow> exn + frame" where
  \<comment> \<open>\<^verbatim>\<open>_parse_json_variants\<close>\<close>
  "parse_json_variants obj =
     and_then
       (case obj of
          PDict d \<Rightarrow>
            (case dict_get d ''Items'' PNone of
               PList items \<Rightarrow>
                 and_then (variant1 items) (\<lambda>r1.
                   case r1 of
                     Some g \<Rightarrow> Inr (Some g)
                   | None \<Rightarrow> variant2 items)
             | _ \<Rightarrow> Inr None)
        | _ \<Rightarrow> Inr None)
       (\<lambda>r12.
          case r12 of
            Some g \<Rightarrow> Inr g
          | None \<Rightarrow>
              and_then (variant3 obj) (\<lambda>r3.
                case r3 of Some g \<Rightarrow> Inr g | None \<Rightarrow> Inr empty_frame))"

definition json_strategy :: "pandas_lib \<Rightarrow> string \<Rightarrow> exn + frame option" where
  \<comment> \<open>The body of the first \<^verbatim>\<open>try\<close> (lines 190 to 193): what it returns, if it returns.\<close>
  "json_strategy L text =
     and_then (json_loads L text) (\<lambda>obj.
     and_then (parse_json_variants obj) (\<lambda>df.
       if \<not> df_empty df then Inr (Some df) else Inr None))"

definition csv_column_lookup :: "string list \<Rightarrow> string \<Rightarrow> pyval" where
  \<comment> \<open>\<^verbatim>\<open>cols.get(k)\<close> for \<^verbatim>\<open>cols = {c.lower(): c for c in df_csv.columns}\<close>: of the
     labels with the same lower-case form the last one stays\<close>
  "csv_column_lookup names k =
     (case map_of (rev (map (\<lambda>c. (py_lower c, c)) names)) k of
        Some c \<Rightarrow> PStr c
      | None \<Rightarrow> PNone)"

definition csv_series :: "frame \<Rightarrow> pyval \<Rightarrow> exn + pyval list" where
  \<comment> \<open>\<^verbatim>\<open>df_csv[col]\<close> for a label found by the lookup\<close>
  "csv_series f col =
     (case col of
        PStr c \<Rightarrow> (case map_of (columns f) c of Some cells \<Rightarrow> Inr cells | None \<Rightarrow> Inl KeyError)
      | _ \<Rightarrow> Inl KeyError)"

definition csv_strategy :: "pandas_lib \<Rightarrow> string \<Rightarrow> exn + frame option" where
  \<comment> \<open>The body of the second \<^verbatim>\<open>try\<close> (lines 199 to 216): what it returns, if it returns.
     The columns of \<^verbatim>\<open>out\<close> are series of \<^verbatim>\<open>df_csv\<close>, so \<^verbatim>\<open>out\<close> has its rows.\<close>
  "csv_strategy L text =
     and_then (read_csv L text) (\<lambda>df_csv.
       let cols = csv_column_lookup (col_names df_csv);
           ts_col = py_or (py_or (cols ''timestamp'') (cols ''time'')) (cols ''datetime'');
           val_col = py_or (cols ''value'') (cols ''values'');
           tag_col = py_or (py_or (cols ''tag'') (cols ''name'')) (cols ''point'');
           unit_col = py_or (py_or (cols ''unit'') (cols ''units'')) (cols ''unitsabbreviation'')
       in if truthy ts_col \<and> truthy val_col
          then
            and_then (csv_series df_csv ts_col) (\<lambda>ts.
            and_then (csv_series df_csv val_col) (\<lambda>vals.
            and_then (if truthy tag_col then csv_series df_csv tag_col else Inr []) (\<lambda>tags.
            and_then (if truthy unit_col then csv_series df_csv unit_col else Inr []) (\<lambda>units.
              let out = \<lparr> nrows = nrows df_csv,
                          columns = [(''timestamp'', to_datetime_column L ts),
                                     (''value'', to_numeric_column L vals)] \<rparr>;
                  out = (if truthy tag_col
                         then put_column ''tag'' (map (\<lambda>v. PStr (astype_str L v)) tags) out
                         else out);
                  out = (if truthy unit_col
                         then put_column ''unit'' (map (\<lambda>v. PStr (astype_str L v)) units) out
                         else out)
              in and_then (dropna_subset ''timestamp'' out) (\<lambda>out. Inr (Some out))))))
          else Inr None)"

definition try_except_pass :: "exn + 'a option \<Rightarrow> 'a option" where
  \<comment> \<open>\<^verbatim>\<open>try: ... except Exception: pass\<close>: the value the body returns, or nothing when it
     raises or runs to its end\<close>
  "try_except_pass body = (case body of Inl e \<Rightarrow> None | Inr r \<Rightarrow> r)"

definition parse_pi_response_to_df :: "pandas_lib \<Rightarrow> string \<Rightarrow> exn + frame" where
  \<comment> \<open>\<^verbatim>\<open>_parse_pi_response_to_df\<close>\<close>
  "parse_pi_response_to_df L text =
     (case try_except_pass (json_strategy L text) of
        Some df \<Rightarrow> Inr df
      | None \<Rightarrow>
          (case try_except_pass (csv_strategy L text) of
             Some out \<Rightarrow> Inr out
           | None \<Rightarrow> Inr empty_frame))"

section \<open>Graphs.py: fetching\<close>

definition stamp_stat :: "APIParams \<Rightarrow> frame \<Rightarrow> exn + frame" where
  \<comment> \<open>Lines 41 to 47: with no \<^verbatim>\<open>stat\<close> column, one requested dataset is written on every
     row, and with several the column is filled with \<^verbatim>\<open>pd.NA\<close>\<close>
  "stamp_stat params df =
     (if \<not> has_col df ''stat''
      then let ds = (case datasets params of None \<Rightarrow> [] | Some ds \<Rightarrow> ds)
           in if length ds = 1 then set_column ''stat'' (PStr (ds ! 0)) df
              else if length ds > 1 then set_column ''stat'' PNone df
              else Inr df
      else Inr df)"

definition ensure_timestamp :: "pandas_lib \<Rightarrow> frame \<Rightarrow> exn + frame" where
  \<comment> \<open>Lines 50 to 52. Under a repeated label \<^verbatim>\<open>df['timestamp']\<close> is a frame, which
     \<^verbatim>\<open>pd.to_datetime\<close> refuses.\<close>
  "ensure_timestamp L df =
     (if has_col df ''timestamp''
      then (case filter (\<lambda>(k, c). k = ''timestamp'') (columns df) of
              [(k, c)] \<Rightarrow>
                and_then (dropna_subset ''timestamp''
                    (put_column ''timestamp'' (to_datetime_column L c) df)) (\<lambda>df.
                  sort_values ''timestamp'' df)
            | _ \<Rightarrow> Inl (ValueError ''to assemble mappings requires at least that [year, month, day] be specified: [day,month,year] is missing''))
      else Inr df)"

definition attach_unit :: "APIParams \<Rightarrow> frame \<Rightarrow> frame" where
  \<comment> \<open>Lines 55 and 56\<close>
  "attach_unit params df =
     (if \<not> has_col df ''unit'' \<and> output_unit params \<noteq> ''''
      then put_column ''unit'' (replicate (nrows df) (PStr (output_unit params))) df
      else df)"

definition normalize_column_order :: "frame \<Rightarrow> exn + frame" where
  \<comment> \<open>Lines 59 to 61\<close>
  "normalize_column_order df =
     (let ordered_cols = filter (has_col df) [''timestamp'', ''tag'', ''stat'', ''value'', ''unit''];
          rest = filter (\<lambda>c. c \<notin> set ordered_cols) (col_names df)
      in select_columns (ordered_cols @ rest) df)"

definition fetch_to_dataframe ::
  "network \<Rightarrow> pandas_lib \<Rightarrow> APIConfig \<Rightarrow> APIParams \<Rightarrow> exn + frame" where
  \<comment> \<open>\<^verbatim>\<open>fetch_to_dataframe\<close>\<close>
  "fetch_to_dataframe net L cfg params =
     (let (status, text) = execute_query net cfg params in
      if status \<noteq> 200
      then Inl (ValueError (''API call failed: HTTP '' @ py_str_nat status @ '' - '' @ take 500 text))
      else
        and_then (parse_pi_response_to_df L text) (\<lambda>df.
          if df_empty df then Inl (ValueError ''Parsed DataFrame is empty (no usable rows).'')
          else
            and_then (stamp_stat params df) (\<lambda>df.
            and_then (ensure_timestamp L df) (\<lambda>df.
              normalize_column_order (attach_unit params df)))))"

subsection \<open>The paired-arrays shape, and sample inputs\<close>

text \<open>The shared series name of a response with paired arrays: the first of its
  \<^verbatim>\<open>Name\<close>, \<^verbatim>\<open>Label\<close> and \<^verbatim>\<open>Path\<close> that is set. The shape of variant 3: an object
  with two lists of the same length under \<^verbatim>\<open>Timestamps\<close> and \<^verbatim>\<open>Values\<close>, without a
  non-empty \<^verbatim>\<open>Items\<close> list (which variants 1 and 2 take first), whose name is a scalar
  and whose unit is not a list.\<close>

definition series_name :: "(string \<times> pyval) list \<Rightarrow> pyval" where
  "series_name d =
     py_or (py_or (dict_get d ''Name'' PNone) (dict_get d ''Label'' PNone)) (dict_get d ''Path'' PNone)"

definition variant3_shape :: "(string \<times> pyval) list \<Rightarrow> pyval list \<Rightarrow> pyval list \<Rightarrow> bool" where
  "variant3_shape d ts vs =
     (map_of d ''Timestamps'' = Some (PList ts)
      \<and> map_of d ''Values'' = Some (PList vs)
      \<and> length ts = length vs
      \<and> (case dict_get d ''Items'' PNone of PList (x # xs) \<Rightarrow> False | _ \<Rightarrow> True)
      \<and> \<not> is_list (series_name d) \<and> \<not> is_dict (series_name d)
      \<and> \<not> is_list (dict_get d ''UnitsAbbreviation'' PNone))"

definition failing_lib :: pandas_lib where
  "failing_lib =
     \<lparr> json_loads = (\<lambda>s. Inl (ValueError ''Expecting value'')),
       read_csv = (\<lambda>s. Inl (ValueError ''No columns to parse from file'')),
       to_datetime = (\<lambda>xs i. None),
       to_numeric = (\<lambda>xs i. None),
       astype_str = (\<lambda>v. ''nan'') \<rparr>"

definition demo_paired :: "(string \<times> pyval) list" where
  "demo_paired =
     [(''Timestamps'', PList [PStr ''2025-06-01T00:00:00Z'', PStr ''2025-06-01T00:15:00Z'']),
      (''Values'', PList [PNum 12.5, PNum 13]),
      (''Name'', PStr ''tagA'')]"

text \<open>A library that decodes every text to the paired-arrays sample.\<close>

definition demo_lib :: pandas_lib where
  "demo_lib =
     \<lparr> json_loads = (\<lambda>s. Inr (PDict demo_paired)),
       read_csv = (\<lambda>s. Inl (ValueError ''No columns to parse from file'')),
       to_datetime = (\<lambda>xs i. case xs ! i of PStr s \<Rightarrow> Some (int i) | PTime t \<Rightarrow> Some t | _ \<Rightarrow> None),
       to_numeric = (\<lambda>xs i. case xs ! i of PNum x \<Rightarrow> Some x | _ \<Rightarrow> None),
       astype_str = (\<lambda>v. case v of PStr s \<Rightarrow> s | _ \<Rightarrow> ''nan'') \<rparr>"

text \<open>A column that carries the same value on every row, under a label that occurs once.\<close>

definition const_col :: "string \<Rightarrow> pyval \<Rightarrow> frame \<Rightarrow> bool" where
  "const_col name v f =
     (filter (\<lambda>(k, c). k = name) (columns f) = [(name, replicate (nrows f) v)])"

section \<open>GUI.py: running a query\<close>

text \<open>
  Of the window, \<^verbatim>\<open>run_query\<close> reads the variables below and the rows of the shuttle
  list (key and value, in order). What it does is recorded as the list of its calls to
  the message boxes and to \<^verbatim>\<open>api.execute_query\<close>, the one place where the network is
  reached. \<^verbatim>\<open>datetime.strptime(s, "%Y-%m-%d").date()\<close> is a parameter: the year, month
  and day, or nothing when it raises.
\<close>

record gui_state =
  var_start :: string
  var_end :: string
  var_interval_value :: string
  var_interval_unit :: string
  var_ds_min :: bool
  var_ds_avg :: bool
  var_ds_max :: bool
  var_output_unit :: string
  var_coincidental :: bool
  var_multi_phase :: bool
  var_multi_avg :: bool
  tree_rows :: "(string \<times> string) list"
  api_config :: APIConfig

datatype gui_event =
    ShowError string string
  | ShowInfo string string
  | ExecuteQuery APIConfig APIParams

fun dict_set :: "string \<Rightarrow> string \<Rightarrow> (string \<times> string) list \<Rightarrow> (string \<times> string) list" where
  \<comment> \<open>\<^verbatim>\<open>d[k] = v\<close>: a key already there keeps its place and takes the new value\<close>
  "dict_set k v [] = [(k, v)]"
| "dict_set k v ((k', v') # d) = (if k' = k then (k, v) # d else (k', v') # dict_set k v d)"

definition get_selected_params :: "gui_state \<Rightarrow> (string \<times> string) list" where
  "get_selected_params g = fold (\<lambda>(k, v) params. dict_set k v params) (tree_rows g) []"

definition api_key_map :: "string \<Rightarrow> string" where
  \<comment> \<open>\<^verbatim>\<open>api_key_map.get(k, k)\<close>\<close>
  "api_key_map k =
     (case map_of [(''Substation'', ''substation''), (''Line'', ''line''),
                   (''Transformer'', ''transformer''), (''Bus'', ''bus''),
                   (''Feeder'', ''feeder'')] k of
        Some a \<Rightarrow> a
      | None \<Rightarrow> k)"

definition run_query ::
  "(string \<Rightarrow> (nat \<times> nat \<times> nat) option) \<Rightarrow> network \<Rightarrow> gui_state \<Rightarrow> gui_event list" where
  "run_query parse_iso net g =
     (case (parse_iso (var_start g), parse_iso (var_end g)) of
        (Some start_d, Some end_d) \<Rightarrow>
          if start_d > end_d
          then [ShowError ''Invalid range'' ''Start Date must be on or before End Date.'']
          else
            (let device_params_gui = get_selected_params g;
                 device_params =
                   fold (\<lambda>(k, v) d. dict_set (api_key_map k) v d) device_params_gui [];
                 dsets = (if var_ds_min g then [''Minimum''] else [])
                       @ (if var_ds_avg g then [''Average''] else [])
                       @ (if var_ds_max g then [''Maximum''] else []);
                 params = build_api_params device_params (var_start g) (var_end g)
                            (py_strip (var_interval_value g))
                            (py_or_str (py_strip (var_interval_unit g)) ''minute'')
                            (Some dsets) (var_output_unit g) (var_coincidental g)
                            (var_multi_phase g) (var_multi_avg g);
                 (status, text) = execute_query net (api_config g) params
             in ExecuteQuery (api_config g) params
                # (if status = 200
                   then [ShowInfo ''Success''
                           (''Request succeeded.'' @ [CHR 0x0A, CHR 0x0A] @ ''(Preview)''
                              @ [CHR 0x0A] @ take 1000 text)]
                   else [ShowError ''Error''
                           (''Status '' @ py_str_nat status @ [CHR 0x0A] @ take 1000 text)]))
      | _ \<Rightarrow> [ShowError ''Invalid date'' ''Start/End dates must be YYYY-MM-DD.''])"

subsection \<open>A sample submission\<close>

definition demo_parse_iso :: "string \<Rightarrow> (nat \<times> nat \<times> nat) option" where
  "demo_parse_iso s =
     (if s = ''2025-06-30'' then Some (2025, 6, 30)
      else if s = ''2025-06-01'' then Some (2025, 6, 1)
      else None)"

definition demo_network :: network where
  "demo_network =
     \<lparr> pi_client_available = False,
       make_pi_client_error = (\<lambda>cfg. None),
       requests_get = (\<lambda>u q a t. Inr (200, ''<html>Bad Gateway</html>'')) \<rparr>"

definition demo_config :: APIConfig where
  "demo_config =
     \<lparr> base_url = ''https://pi/piwebapi'', use_kerberos = False, username = None,
       password = None, timeout_seconds = 60 \<rparr>"

definition demo_gui :: gui_state where
  "demo_gui =
     \<lparr> var_start = ''2025-06-30'', var_end = ''2025-06-01'', var_interval_value = ''15'',
       var_interval_unit = ''minute'', var_ds_min = False, var_ds_avg = True,
       var_ds_max = False, var_output_unit = ''Amp'', var_coincidental = False,
       var_multi_phase = False, var_multi_avg = False, tree_rows = [(''Feeder'', ''8-27.11'')],
       api_config = demo_config \<rparr>"

definition demo_params :: APIParams where
  "demo_params =
     build_api_params [(''feeder'', ''8-27.11'')] ''2025-06-01'' ''2025-06-30'' ''15'' ''minute''
       (Some [''Average'']) ''Amp'' False False False"

section \<open>Graphs.py: resampling\<close>




















subsection \<open>Reading a frame by rows\<close>



subsection \<open>A sample series with a gap\<close>




section \<open>Graphs.py: the cache artifact path\<close>

text \<open>A value of a query-parameter dictionary, as \<^verbatim>\<open>asdict(params)\<close> has them: a string,
  a flag, \<^verbatim>\<open>None\<close> or a list of strings.\<close>

datatype kvalue = KStr string | KBool bool | KNone | KList "string list"

definition asdict :: "APIParams \<Rightarrow> (string \<times> kvalue) list" where
  \<comment> \<open>\<^verbatim>\<open>dataclasses.asdict\<close>, in field order\<close>
  "asdict p =
     [(''substation'', KStr (substation p)),
      (''line'', KStr (line p)),
      (''transformer'', KStr (transformer p)),
      (''bus'', KStr (bus p)),
      (''feeder'', KStr (feeder p)),
      (''start_date'', KStr (start_date p)),
      (''end_date'', KStr (end_date p)),
      (''interval_value'', KStr (interval_value p)),
      (''interval_unit'', KStr (interval_unit p)),
      (''datasets'', (case datasets p of None \<Rightarrow> KNone | Some ds \<Rightarrow> KList ds)),
      (''output_unit'', KStr (output_unit p)),
      (''coincidental_peaks'', KBool (coincidental_peaks p)),
      (''multi_phase'', KBool (multi_phase p)),
      (''multi_phase_average'', KBool (multi_phase_average p))]"

definition hex_digit :: "nat \<Rightarrow> char" where
  "hex_digit n = (if n < 10 then char_of (48 + n) else char_of (87 + n))"

definition json_escape_char :: "char \<Rightarrow> string" where
  \<comment> \<open>\<^verbatim>\<open>json.dumps\<close> with its default \<^verbatim>\<open>ensure_ascii=True\<close>: the quote, the backslash
     and everything outside the printable ASCII range are escaped.\<close>
  "json_escape_char c =
     (let n = of_char c :: nat in
      if n = 0x22 then [CHR 0x5C, CHR 0x22]
      else if n = 0x5C then [CHR 0x5C, CHR 0x5C]
      else if n = 0x0A then [CHR 0x5C, CHR ''n'']
      else if n = 0x0D then [CHR 0x5C, CHR ''r'']
      else if n = 0x09 then [CHR 0x5C, CHR ''t'']
      else if n = 0x08 then [CHR 0x5C, CHR ''b'']
      else if n = 0x0C then [CHR 0x5C, CHR ''f'']
      else if n < 0x20 \<or> 0x7E < n
        then [CHR 0x5C, CHR ''u'', CHR ''0'', CHR ''0'', hex_digit (n div 16), hex_digit (n mod 16)]
      else [c])"

definition json_string :: "string \<Rightarrow> string" where
  "json_string s = [CHR 0x22] @ concat (map json_escape_char s) @ [CHR 0x22]"

fun json_dumps_value :: "kvalue \<Rightarrow> string" where
  "json_dumps_value (KStr s) = json_string s"
| "json_dumps_value (KBool b) = (if b then ''true'' else ''false'')"
| "json_dumps_value KNone = ''null''"
| "json_dumps_value (KList xs) = ''['' @ py_join '', '' (map json_string xs) @ '']''"

definition json_dumps_items :: "(string \<times> kvalue) list \<Rightarrow> string" where
  \<comment> \<open>a JSON object with its members in the order given, default separators\<close>
  "json_dumps_items items =
     ''{'' @ py_join '', '' (map (\<lambda>(k, v). json_string k @ '': '' @ json_dumps_value v) items)
       @ ''}''"

definition json_dumps_sorted :: "(string \<times> kvalue) list \<Rightarrow> string" where
  \<comment> \<open>\<^verbatim>\<open>json.dumps(key_obj, sort_keys=True)\<close>. The dictionary is an association list with
     distinct keys, in insertion order; its items are sorted by key.\<close>
  "json_dumps_sorted d = json_dumps_items (sort_key fst d)"

definition cache_path ::
  "(string \<Rightarrow> string) \<Rightarrow> string \<Rightarrow> (string \<times> kvalue) list \<Rightarrow> string" where
  \<comment> \<open>Lines 167 and 168 of \<^verbatim>\<open>cache_dataframe_parquet\<close>: the path it writes the frame to
     and returns. \<^verbatim>\<open>hashlib.sha256(...).hexdigest()\<close> and \<^verbatim>\<open>tempfile.gettempdir()\<close>
     belong to the standard library and the process; they are parameters.\<close>
  "cache_path sha256_hexdigest gettempdir key_obj =
     (let cache_key = take 16 (sha256_hexdigest (json_dumps_sorted key_obj))
      in gettempdir @ ''/pi_cache_'' @ cache_key @ ''.parquet'')"

text \<open>A stand-in for the digest in examples: the text written out in hexadecimal.\<close>

definition demo_hexdigest :: "string \<Rightarrow> string" where
  "demo_hexdigest s =
     concat (map (\<lambda>c. [hex_digit (of_char c div 16), hex_digit (of_char c mod 16)]) s)"

section \<open>Facts about the string model\<close>

lemma all_dropWhile: "(\<forall>x\<in>set (dropWhile P s). P x) \<longleftrightarrow> (\<forall>x\<in>set s. P x)"
  by (induction s) auto

lemma py_strip_eq_Nil_iff: "py_strip s = '''' \<longleftrightarrow> list_all py_isspace_char s"
  by (simp add: py_strip_def all_dropWhile list_all_iff)

lemma py_isdigit_zero: "py_isdigit ''0''"
  by (simp add: py_isdigit_def py_isdigit_char_def)

lemma py_strip_true: "py_strip ''true'' = ''true''"
  by (simp add: py_strip_def py_isspace_char_def)

lemma py_strip_false: "py_strip ''false'' = ''false''"
  by (simp add: py_strip_def py_isspace_char_def)

section \<open>Interval coercion (build\_api\_params)\<close>

lemma build_api_params_interval_stored:
  "interval_value (build_api_params dp sd ed iv iu ds ou cp mp mpa) =
     (if py_isdigit (py_strip iv) then py_strip iv else ''0'')"
  by (simp add: build_api_params_def Let_def)

lemma decimal_interval_kept:
  "nonneg_integer_string (py_strip iv) \<Longrightarrow>
   interval_value (build_api_params dp sd ed iv iu ds ou cp mp mpa) = py_strip iv"
  by (auto simp: build_api_params_interval_stored nonneg_integer_string_def py_isdigit_def
      py_isdigit_char_def py_isdecimal_char_def list_all_iff Let_def)

text \<open>
  Claim C8. The interval magnitude of the parameter model that \<^verbatim>\<open>build_api_params\<close>
  constructs is meant to be a non-negative integer string, the string \<^verbatim>\<open>"0"\<close> standing in
  for every input that is not one. The code tests the stripped input with
  \<^verbatim>\<open>str.isdigit\<close>, which also accepts the superscript digits: for the interval string
  U+00B2 the magnitude stored is that same string, which is neither \<^verbatim>\<open>"0"\<close> nor made of
  decimal digits.
\<close>

theorem build_api_params_keeps_superscript_two:
  "interval_value
     (build_api_params [] ''2025-06-01'' ''2025-06-30'' superscript_two ''minute'' None ''Amp''
        False False False) = superscript_two
   \<and> py_isdigit (py_strip superscript_two)
   \<and> \<not> nonneg_integer_string superscript_two
   \<and> superscript_two \<noteq> ''0''"
  by (simp add: build_api_params_def Let_def superscript_two_def py_strip_def py_isspace_char_def
      py_isdigit_def py_isdigit_char_def nonneg_integer_string_def py_isdecimal_char_def)

section \<open>The flattened query dictionary (to\_query\_dict)\<close>

lemma map_of_map_filter_map:
  "distinct (map fst l) \<Longrightarrow>
   map_of (map (\<lambda>(k, v). (k, f v)) (filter (\<lambda>(k, v). P v) (map (\<lambda>(k, v). (k, g v)) l))) k =
     (case map_of l k of None \<Rightarrow> None
      | Some v \<Rightarrow> if P (g v) then Some (f (g v)) else None)"
proof (induction l)
  case Nil
  then show ?case by simp
next
  case (Cons a l)
  obtain k' v' where a: "a = (k', v')" by (cases a)
  from Cons.prems have "k' \<notin> fst ` set l" and d: "distinct (map fst l)" by (auto simp: a)
  then have none: "map_of l k' = None" by (simp add: map_of_eq_None_iff)
  show ?case using Cons.IH [OF d] none by (auto simp: a)
qed

lemma distinct_keys_asdict_joined: "distinct (map fst (asdict_joined p))"
  by (simp add: asdict_joined_def)

lemma map_of_to_query_dict:
  "map_of (to_query_dict p) k =
     (case map_of (asdict_joined p) k of None \<Rightarrow> None
      | Some v \<Rightarrow> if py_strip (py_str_qvalue (convert_bool v)) \<noteq> ''''
                 then Some (py_str_qvalue (convert_bool v)) else None)"
  unfolding to_query_dict_def
  by (rule map_of_map_filter_map [OF distinct_keys_asdict_joined])

lemma to_query_dict_flags:
  "map_of (to_query_dict p) ''coincidental_peaks'' =
     Some (if coincidental_peaks p then ''true'' else ''false'')"
  "map_of (to_query_dict p) ''multi_phase'' =
     Some (if multi_phase p then ''true'' else ''false'')"
  "map_of (to_query_dict p) ''multi_phase_average'' =
     Some (if multi_phase_average p then ''true'' else ''false'')"
  by (simp_all add: map_of_to_query_dict asdict_joined_def py_strip_true py_strip_false)

lemma to_query_dict_devices:
  "map_of (to_query_dict p) ''substation'' =
     (if list_all py_isspace_char (substation p) then None else Some (substation p))"
  "map_of (to_query_dict p) ''line'' =
     (if list_all py_isspace_char (line p) then None else Some (line p))"
  "map_of (to_query_dict p) ''transformer'' =
     (if list_all py_isspace_char (transformer p) then None else Some (transformer p))"
  "map_of (to_query_dict p) ''bus'' =
     (if list_all py_isspace_char (bus p) then None else Some (bus p))"
  "map_of (to_query_dict p) ''feeder'' =
     (if list_all py_isspace_char (feeder p) then None else Some (feeder p))"
  by (simp_all add: map_of_to_query_dict asdict_joined_def py_strip_eq_Nil_iff)

lemma to_query_dict_dates:
  "map_of (to_query_dict p) ''start_date'' =
     (if list_all py_isspace_char (start_date p) then None else Some (start_date p))"
  "map_of (to_query_dict p) ''end_date'' =
     (if list_all py_isspace_char (end_date p) then None else Some (end_date p))"
  "map_of (to_query_dict p) ''interval_value'' =
     (if list_all py_isspace_char (interval_value p) then None else Some (interval_value p))"
  "map_of (to_query_dict p) ''interval_unit'' =
     (if list_all py_isspace_char (interval_unit p) then None else Some (interval_unit p))"
  "map_of (to_query_dict p) ''output_unit'' =
     (if list_all py_isspace_char (output_unit p) then None else Some (output_unit p))"
  by (simp_all add: map_of_to_query_dict asdict_joined_def py_strip_eq_Nil_iff)

text \<open>
  Claim C10. For every parameter model the flattened dictionary holds the three flag
  keys \<^verbatim>\<open>coincidental_peaks\<close>, \<^verbatim>\<open>multi_phase\<close> and \<^verbatim>\<open>multi_phase_average\<close>, each
  mapped to \<^verbatim>\<open>"true"\<close> or \<^verbatim>\<open>"false"\<close> after the flag's value (a false flag is kept,
  as the string \<^verbatim>\<open>"false"\<close>), and each of the ten string fields is left out when its
  value is empty or whitespace only, and is kept with its value otherwise.
\<close>

theorem to_query_dict_flags_kept_blank_strings_dropped:
  "map_of (to_query_dict p) ''coincidental_peaks'' =
     Some (if coincidental_peaks p then ''true'' else ''false'')
   \<and> map_of (to_query_dict p) ''multi_phase'' =
     Some (if multi_phase p then ''true'' else ''false'')
   \<and> map_of (to_query_dict p) ''multi_phase_average'' =
     Some (if multi_phase_average p then ''true'' else ''false'')
   \<and> map_of (to_query_dict p) ''substation'' =
     (if list_all py_isspace_char (substation p) then None else Some (substation p))
   \<and> map_of (to_query_dict p) ''line'' =
     (if list_all py_isspace_char (line p) then None else Some (line p))
   \<and> map_of (to_query_dict p) ''transformer'' =
     (if list_all py_isspace_char (transformer p) then None else Some (transformer p))
   \<and> map_of (to_query_dict p) ''bus'' =
     (if list_all py_isspace_char (bus p) then None else Some (bus p))
   \<and> map_of (to_query_dict p) ''feeder'' =
     (if list_all py_isspace_char (feeder p) then None else Some (feeder p))
   \<and> map_of (to_query_dict p) ''start_date'' =
     (if list_all py_isspace_char (start_date p) then None else Some (start_date p))
   \<and> map_of (to_query_dict p) ''end_date'' =
     (if list_all py_isspace_char (end_date p) then None else Some (end_date p))
   \<and> map_of (to_query_dict p) ''interval_value'' =
     (if list_all py_isspace_char (interval_value p) then None else Some (interval_value p))
   \<and> map_of (to_query_dict p) ''interval_unit'' =
     (if list_all py_isspace_char (interval_unit p) then None else Some (interval_unit p))
   \<and> map_of (to_query_dict p) ''output_unit'' =
     (if list_all py_isspace_char (output_unit p) then None else Some (output_unit p))"
  using to_query_dict_flags [of p] to_query_dict_devices [of p] to_query_dict_dates [of p]
  by blast

section \<open>Facts about data frames\<close>

lemma nrows_put_column [simp]: "nrows (put_column name cells f) = nrows f"
  by (simp add: put_column_def)

lemma wf_put_column:
  "wf_frame f \<Longrightarrow> length cells = nrows f \<Longrightarrow> wf_frame (put_column name cells f)"
  by (auto simp: wf_frame_def put_column_def list_all_iff split: if_splits)

lemma map_of_put_column_same:
  "map_of (columns (put_column name cells f)) name = Some cells"
proof (cases "has_col f name")
  case True
  have "map_of (map (\<lambda>(k, c). if k = name then (k, cells) else (k, c)) cs) name = Some cells"
    if "name \<in> fst ` set cs" for cs
    using that by (induction cs) auto
  with True show ?thesis by (simp add: put_column_def has_col_def col_names_def)
next
  case False
  then have "map_of (columns f) name = None"
    by (simp add: has_col_def col_names_def map_of_eq_None_iff)
  with False show ?thesis by (simp add: put_column_def map_add_def)
qed

lemma map_of_put_column_other:
  "k \<noteq> name \<Longrightarrow> map_of (columns (put_column name cells f)) k = map_of (columns f) k"
proof -
  assume ne: "k \<noteq> name"
  have "map_of (map (\<lambda>(k, c). if k = name then (k, cells) else (k, c)) cs) k = map_of cs k" for cs
    using ne by (induction cs) auto
  with ne show ?thesis by (auto simp: put_column_def map_add_def split: option.splits)
qed

lemma set_column_scalar:
  "\<not> is_list v \<Longrightarrow> \<not> is_dict v \<Longrightarrow>
   set_column name v g = Inr (put_column name (replicate (nrows g) v) g)"
  by (cases v) (simp_all add: set_column_def)

lemma set_column_not_list:
  assumes "\<not> is_list v"
  shows "\<exists>cells. length cells = nrows g \<and> set_column name v g = Inr (put_column name cells g)"
proof (cases "is_dict v")
  case True
  then obtain m where "v = PDict m" by (cases v) simp_all
  then have "set_column name v g = Inr (put_column name (replicate (nrows g) PNone) g)"
    by (simp add: set_column_def)
  then show ?thesis by (intro exI [of _ "replicate (nrows g) PNone"]) simp
next
  case False
  with assms have "set_column name v g = Inr (put_column name (replicate (nrows g) v) g)"
    by (rule set_column_scalar)
  then show ?thesis by (intro exI [of _ "replicate (nrows g) v"]) simp
qed

section \<open>Tag resolution (get\_point\_webid)\<close>

lemma lower_lower_char: "py_lower_char (py_lower_char c) = py_lower_char c"
  by (auto simp: py_lower_char_def Let_def)

lemma py_lower_lower: "py_lower (py_lower s) = py_lower s"
  by (simp add: py_lower_def lower_lower_char)

lemma name_lower_ok: "candidate_ok it \<Longrightarrow> name_lower it = Inr (py_lower (candidate_name it))"
  by (auto simp: candidate_ok_def name_lower_def candidate_name_def dict_get_def py_get_def
      py_lower_def split: pyval.splits option.splits)

lemma exact_matches_ok:
  "list_all candidate_ok its \<Longrightarrow>
   exact_matches tag its = Inr (filter (\<lambda>it. py_lower (candidate_name it) = py_lower tag) its)"
  by (induction its) (auto simp: name_lower_ok)

lemma webid_ok: "candidate_ok it \<Longrightarrow> py_get it ''WebId'' PNone = Inr (candidate_webid it)"
  by (auto simp: candidate_ok_def py_get_def candidate_webid_def dict_get_def
      split: pyval.splits option.splits)

lemma first_of_filter_or_all:
  "(case (if filter P xs \<noteq> [] then filter P xs else xs) of [] \<Rightarrow> a | s # r \<Rightarrow> f s) =
   (if xs = [] then a else f (case find P xs of Some it \<Rightarrow> it | None \<Rightarrow> hd xs))"
proof (cases "filter P xs")
  case Nil
  then have "find P xs = None" by (simp add: find_None_iff filter_empty_conv)
  with Nil show ?thesis by (cases xs) auto
next
  case (Cons y ys)
  then have "xs \<noteq> []" by auto
  moreover have "find P xs = Some y" using Cons
    by (induction xs) (auto split: if_splits)
  ultimately show ?thesis using Cons by simp
qed

lemma get_point_webid_resolve:
  assumes "PIClient_get s (base @ ''/points'') [(''nameFilter'', tag)] = Inr (PDict d)"
    and "dict_get d ''Items'' (PList []) = PList items"
    and "list_all candidate_ok items"
  shows "get_point_webid s base tag = resolve_spec tag items"
proof (cases "items = []")
  case True
  then show ?thesis using assms
    by (simp add: get_point_webid_def py_get_def resolve_spec_def)
next
  case False
  let ?P = "\<lambda>it. py_lower (candidate_name it) = py_lower tag"
  let ?sel = "case find ?P items of Some it \<Rightarrow> it | None \<Rightarrow> hd items"
  have sel_in: "?sel \<in> set items"
  proof (cases "find ?P items")
    case None
    then show ?thesis using False by simp
  next
    case (Some it)
    then have "it \<in> set items" by (auto simp: find_Some_iff)
    with Some show ?thesis by simp
  qed
  then have ok: "candidate_ok ?sel" using assms(3) by (simp add: list_all_iff)
  have "get_point_webid s base tag =
      (case (if filter ?P items \<noteq> [] then filter ?P items else items) of
         [] \<Rightarrow> Inl IndexError
       | sel # rest \<Rightarrow>
           (case py_get sel ''WebId'' PNone of
              Inl e \<Rightarrow> Inl e
            | Inr webid \<Rightarrow>
                if \<not> truthy webid then Inl (PINotFound (''No WebId for tag: '' @ tag))
                else Inr webid))"
    using assms False
    by (simp add: get_point_webid_def py_get_def exact_matches_ok)
  also have "\<dots> = (case py_get ?sel ''WebId'' PNone of
              Inl e \<Rightarrow> Inl e
            | Inr webid \<Rightarrow>
                if \<not> truthy webid then Inl (PINotFound (''No WebId for tag: '' @ tag))
                else Inr webid)"
    using False by (simp add: first_of_filter_or_all)
  also have "\<dots> = resolve_spec tag items"
    using False by (simp add: webid_ok [OF ok] resolve_spec_def select_candidate_spec_def)
  finally show ?thesis .
qed

lemma demo_get:
  "PIClient_get demo_session (''https://pi/piwebapi'' @ ''/points'') [(''nameFilter'', t)] =
     Inr (PDict [(''Items'', PList
       [PDict [(''Name'', PStr ''Foo2''), (''WebId'', PStr ''W2'')],
        PDict [(''Name'', PStr ''Foo''), (''WebId'', PStr ''W1'')]])])"
  by (simp add: PIClient_get_def demo_session_def demo_points_def)

lemma demo_items:
  "dict_get [(''Items'', PList its)] ''Items'' (PList []) = PList its"
  by (simp add: dict_get_def)

lemma demo_candidates_ok:
  "list_all candidate_ok
     [PDict [(''Name'', PStr ''Foo2''), (''WebId'', PStr ''W2'')],
      PDict [(''Name'', PStr ''Foo''), (''WebId'', PStr ''W1'')]]"
  by (simp add: candidate_ok_def)

text \<open>
  Claim C2. Resolution of a tag reads the provider only through the point-listing
  request \<^verbatim>\<open>base/points\<close> with \<^verbatim>\<open>nameFilter\<close> equal to the tag. When that request returns
  a set of candidates, the result is the identifier of the case-insensitive exact name
  match if there is one, and of the first candidate in the provider's order otherwise;
  and resolution fails with the not-found error exactly when there is no candidate or
  the selected candidate has no usable identifier.
\<close>

theorem get_point_webid_resolution:
  assumes "PIClient_get s (base @ ''/points'') [(''nameFilter'', tag)] = Inr (PDict d)"
    and "dict_get d ''Items'' (PList []) = PList items"
    and "list_all candidate_ok items"
    and "s' (base @ ''/points'') [(''nameFilter'', tag)] =
         s (base @ ''/points'') [(''nameFilter'', tag)]"
  shows "get_point_webid s' base tag = resolve_spec tag items
    \<and> ((\<exists>msg. get_point_webid s' base tag = Inl (PINotFound msg)) \<longleftrightarrow>
         items = [] \<or> \<not> truthy (candidate_webid (select_candidate_spec tag items)))
    \<and> (items \<noteq> [] \<and> truthy (candidate_webid (select_candidate_spec tag items)) \<longrightarrow>
         get_point_webid s' base tag = Inr (candidate_webid (select_candidate_spec tag items)))"
proof -
  have "PIClient_get s' (base @ ''/points'') [(''nameFilter'', tag)] = Inr (PDict d)"
    using assms(1,4) by (simp add: PIClient_get_def)
  then have r: "get_point_webid s' base tag = resolve_spec tag items"
    using assms(2,3) by (rule get_point_webid_resolve)
  show ?thesis unfolding r by (auto simp: resolve_spec_def)
qed

theorem get_point_webid_resolution_witness:
  "get_point_webid demo_session ''https://pi/piwebapi'' ''FOO'' = Inr (PStr ''W1'')"
proof -
  have "resolve_spec ''FOO''
      [PDict [(''Name'', PStr ''Foo2''), (''WebId'', PStr ''W2'')],
       PDict [(''Name'', PStr ''Foo''), (''WebId'', PStr ''W1'')]] = Inr (PStr ''W1'')"
    by code_simp
  then show ?thesis
    using get_point_webid_resolution
      [where s' = demo_session, OF demo_get demo_items demo_candidates_ok refl]
    by simp
qed

section \<open>Resolving the two casings of a name\<close>

lemma lower_upper_char:
  "(of_char c :: nat) \<notin> {181, 223, 255} \<Longrightarrow>
   \<exists>u. py_upper_char c = Some [u] \<and> py_lower_char u = py_lower_char c"
  by (auto simp: py_lower_char_def py_upper_char_def Let_def)

lemma py_upper_lower_fold:
  "list_all (\<lambda>c. (of_char c :: nat) \<notin> {181, 223, 255}) n \<Longrightarrow>
   \<exists>u. py_upper n = Some u \<and> py_lower u = py_lower n"
proof (induction n)
  case Nil
  then show ?case by (simp add: py_lower_def)
next
  case (Cons c n)
  then obtain u where u: "py_upper n = Some u" "py_lower u = py_lower n" by auto
  from Cons.prems obtain v where v: "py_upper_char c = Some [v]" "py_lower_char v = py_lower_char c"
    using lower_upper_char [of c] by auto
  show ?case using u v by (simp add: py_lower_def)
qed

lemma map_of_take_None: "map_of c k = None \<Longrightarrow> map_of (take n c) k = None"
  by (auto simp: map_of_eq_None_iff dest: in_set_takeD)

text \<open>
  Claim C4, for the names and candidates of which it holds. Take a name whose upper-cased
  form has the same lower-cased form as the name itself (every name without the sharp s,
  the micro sign and the y with diaeresis is one, by \<open>py_upper_lower_fold\<close>). Let the
  provider answer the queries for the upper-cased and for the lower-cased form with the
  same candidates, let the first of them that matches the name exactly but for case carry
  a usable identifier, and let neither form be in the cache. Then resolving the
  upper-cased form and then the lower-cased form returns that identifier both times. The
  first resolution stores it under the upper-cased key only, so the second is resolved on
  its own and stored under the lower-cased key; afterwards the cache holds both keys.
\<close>

theorem resolve_upper_and_lower:
  assumes upper: "py_upper n = Some u"
    and fold: "py_lower u = py_lower n"
    and up: "PIClient_get s (base @ ''/points'') [(''nameFilter'', u)] = Inr (PDict d)"
    and lo: "PIClient_get s (base @ ''/points'') [(''nameFilter'', py_lower n)] = Inr (PDict d)"
    and items: "dict_get d ''Items'' (PList []) = PList items"
    and ok: "list_all candidate_ok items"
    and m: "first_exact_match n items = Some m"
    and usable: "truthy (candidate_webid m)"
    and c0: "map_of c0 u = None" "map_of c0 (py_lower n) = None"
    and r1: "get_point_webid_cached s base c0 u = (r1, c1)"
    and r2: "get_point_webid_cached s base c1 (py_lower n) = (r2, c2)"
  shows "r1 = Inr (candidate_webid m) \<and> r2 = Inr (candidate_webid m)
     \<and> map_of c1 u = Some (candidate_webid m)
     \<and> (u \<noteq> py_lower n \<longrightarrow> map_of c1 (py_lower n) = None)
     \<and> map_of c2 u = Some (candidate_webid m)
     \<and> map_of c2 (py_lower n) = Some (candidate_webid m)"
proof -
  let ?w = "candidate_webid m"
  let ?l = "py_lower n"
  have f: "find (\<lambda>it. py_lower (candidate_name it) = py_lower n) items = Some m"
    using m by (simp add: first_exact_match_def)
  have ne: "items \<noteq> []" using f by auto
  have selU: "select_candidate_spec u items = m"
    using f by (simp add: select_candidate_spec_def fold)
  have selL: "select_candidate_spec ?l items = m"
    using f by (simp add: select_candidate_spec_def py_lower_lower)
  have gU: "get_point_webid s base u = resolve_spec u items"
    by (rule get_point_webid_resolve [OF up items ok])
  have gL: "get_point_webid s base ?l = resolve_spec ?l items"
    by (rule get_point_webid_resolve [OF lo items ok])
  have 1: "r1 = Inr ?w" "c1 = take lru_maxsize ((u, ?w) # c0)"
    using r1 c0(1) usable ne by (simp_all add: get_point_webid_cached_def gU resolve_spec_def selU)
  have c1U: "map_of c1 u = Some ?w" by (simp add: 1 lru_maxsize_def)
  have c1L: "u \<noteq> ?l \<Longrightarrow> map_of c1 ?l = None"
    using c0(2) by (simp add: 1 lru_maxsize_def map_of_take_None)
  have 2: "r2 = Inr ?w \<and> map_of c2 u = Some ?w \<and> map_of c2 ?l = Some ?w"
  proof (cases "u = ?l")
    case True
    then show ?thesis using r2 c1U
      by (auto simp: get_point_webid_cached_def)
  next
    case False
    then have "r2 = Inr ?w" "c2 = take lru_maxsize ((?l, ?w) # c1)"
      using r2 c1L usable ne by (simp_all add: get_point_webid_cached_def gL resolve_spec_def selL)
    then show ?thesis using False by (simp add: 1 lru_maxsize_def)
  qed
  show ?thesis using 1 c1U c1L 2 by simp
qed

theorem resolve_upper_and_lower_witness:
  "fst (get_point_webid_cached demo_session ''https://pi/piwebapi'' [] ''FOO'')
     = Inr (PStr ''W1'')
   \<and> fst (get_point_webid_cached demo_session ''https://pi/piwebapi''
       (snd (get_point_webid_cached demo_session ''https://pi/piwebapi'' [] ''FOO''))
       (py_lower ''Foo'')) = Inr (PStr ''W1'')"
proof -
  let ?m = "PDict [(''Name'', PStr ''Foo''), (''WebId'', PStr ''W1'')]"
  have u: "py_upper ''Foo'' = Some ''FOO''" by code_simp
  have l: "py_lower ''FOO'' = py_lower ''Foo''" by code_simp
  have m: "first_exact_match ''Foo''
      [PDict [(''Name'', PStr ''Foo2''), (''WebId'', PStr ''W2'')], ?m] = Some ?m"
    by code_simp
  have w: "candidate_webid ?m = PStr ''W1''" by (simp add: candidate_webid_def)
  have t: "truthy (candidate_webid ?m)" by (simp add: w)
  have c: "map_of ([] :: (string \<times> pyval) list) k = None" for k by simp
  show ?thesis
    using resolve_upper_and_lower
      [OF u l demo_get demo_get demo_items demo_candidates_ok m t c c
        prod.collapse [symmetric] prod.collapse [symmetric]]
    by (simp add: w)
qed

text \<open>
  Two sets of candidates on which the two forms do not return one identifier. The first
  holds a candidate of the name \<^const>\<open>groesse\<close>, yet the upper-cased form
  \<^const>\<open>groesse_upper\<close> matches no candidate, since its lower-cased form has \<^verbatim>\<open>ss\<close> where
  the name has the sharp s, and resolves to the first candidate, while the lower-cased
  form resolves to the match. In the second the match has an empty identifier, and
  both resolutions fail with the not-found error.
\<close>

theorem upper_and_lower_resolve_apart:
  "py_upper groesse = Some groesse_upper
   \<and> first_exact_match groesse
       [PDict [(''Name'', PStr (groesse @ ''2'')), (''WebId'', PStr ''W2'')],
        PDict [(''Name'', PStr groesse), (''WebId'', PStr ''W1'')]]
     = Some (PDict [(''Name'', PStr groesse), (''WebId'', PStr ''W1'')])
   \<and> get_point_webid_cached groesse_session ''https://pi/piwebapi'' [] groesse_upper
     = (Inr (PStr ''W2''), [(groesse_upper, PStr ''W2'')])
   \<and> get_point_webid_cached groesse_session ''https://pi/piwebapi''
       [(groesse_upper, PStr ''W2'')] (py_lower groesse)
     = (Inr (PStr ''W1''), [(py_lower groesse, PStr ''W1''), (groesse_upper, PStr ''W2'')])
   \<and> py_upper ''Foo'' = Some ''FOO''
   \<and> first_exact_match ''Foo'' [PDict [(''Name'', PStr ''Foo''), (''WebId'', PStr '''')]]
     = Some (PDict [(''Name'', PStr ''Foo''), (''WebId'', PStr '''')])
   \<and> get_point_webid_cached unusable_session ''https://pi/piwebapi'' [] ''FOO''
     = (Inl (PINotFound ''No WebId for tag: FOO''), [])
   \<and> get_point_webid_cached unusable_session ''https://pi/piwebapi'' [] (py_lower ''Foo'')
     = (Inl (PINotFound ''No WebId for tag: foo''), [])"
  by code_simp

section \<open>The normalizer never raises\<close>

lemma try_except_pass_cases:
  "try_except_pass b = None \<or> (\<exists>x. b = Inr (Some x) \<and> try_except_pass b = Some x)"
  by (auto simp: try_except_pass_def split: sum.splits)

text \<open>
  Claim C1. On every input text, and whatever \<^verbatim>\<open>json.loads\<close>, \<^verbatim>\<open>pd.read_csv\<close> and the
  conversions do with it, \<^verbatim>\<open>_parse_pi_response_to_df\<close> returns a frame: no exception
  leaves it. When neither the JSON strategy (variants 1, 2 and 3) nor the CSV strategy
  yields a frame with a row, the frame it returns has no rows.
\<close>

theorem parse_pi_response_never_raises:
  "(\<exists>df. parse_pi_response_to_df L text = Inr df)
   \<and> ((\<forall>df. json_strategy L text = Inr (Some df) \<longrightarrow> nrows df = 0)
        \<and> (\<forall>out. csv_strategy L text = Inr (Some out) \<longrightarrow> nrows out = 0)
      \<longrightarrow> (\<exists>df. parse_pi_response_to_df L text = Inr df \<and> nrows df = 0))"
proof -
  have 1: "\<exists>df. parse_pi_response_to_df L text = Inr df"
    by (simp add: parse_pi_response_to_df_def split: option.splits)
  have 2: "\<exists>df. parse_pi_response_to_df L text = Inr df \<and> nrows df = 0"
    if j: "\<forall>df. json_strategy L text = Inr (Some df) \<longrightarrow> nrows df = 0"
      and c: "\<forall>out. csv_strategy L text = Inr (Some out) \<longrightarrow> nrows out = 0"
  proof (cases "try_except_pass (json_strategy L text)")
    case (Some df)
    then have "json_strategy L text = Inr (Some df)"
      using try_except_pass_cases [of "json_strategy L text"] by auto
    with j Some show ?thesis by (simp add: parse_pi_response_to_df_def)
  next
    case None
    show ?thesis
    proof (cases "try_except_pass (csv_strategy L text)")
      case (Some out)
      then have "csv_strategy L text = Inr (Some out)"
        using try_except_pass_cases [of "csv_strategy L text"] by auto
      with c Some None show ?thesis by (simp add: parse_pi_response_to_df_def)
    next
      case n2: None
      with None show ?thesis by (simp add: parse_pi_response_to_df_def empty_frame_def)
    qed
  qed
  from 1 2 show ?thesis by blast
qed

theorem parse_pi_response_never_raises_witness:
  "\<exists>df. parse_pi_response_to_df failing_lib ''<html>Bad Gateway</html>'' = Inr df \<and> nrows df = 0"
proof -
  have j: "\<forall>df. json_strategy failing_lib ''<html>Bad Gateway</html>'' = Inr (Some df) \<longrightarrow> nrows df = 0"
    by (simp add: json_strategy_def failing_lib_def and_then_def)
  have c: "\<forall>out. csv_strategy failing_lib ''<html>Bad Gateway</html>'' = Inr (Some out) \<longrightarrow> nrows out = 0"
    by (simp add: csv_strategy_def failing_lib_def and_then_def)
  show ?thesis
    using parse_pi_response_never_raises [of failing_lib "''<html>Bad Gateway</html>''"] j c
    by blast
qed

section \<open>Paired arrays (variant 3)\<close>

lemma variant3_frame:
  assumes "variant3_shape d ts vs"
  shows "\<exists>f. variant3 (PDict d) = Inr (Some f) \<and> nrows f = length ts \<and> wf_frame f
     \<and> map_of (columns f) ''timestamp'' = Some ts
     \<and> map_of (columns f) ''value'' = Some vs
     \<and> map_of (columns f) ''tag'' = Some (replicate (length ts) (series_name d))"
proof -
  have ts: "map_of d ''Timestamps'' = Some (PList ts)" and vs: "map_of d ''Values'' = Some (PList vs)"
    and len: "length ts = length vs"
    and nm: "\<not> is_list (series_name d)" "\<not> is_dict (series_name d)"
    and un: "\<not> is_list (dict_get d ''UnitsAbbreviation'' PNone)"
    using assms by (simp_all add: variant3_shape_def)
  have k1: "''Timestamps'' \<in> fst ` set d" using ts by (metis domI dom_map_of_conv_image_fst)
  have k2: "''Values'' \<in> fst ` set d" using vs by (metis domI dom_map_of_conv_image_fst)
  define f0 where "f0 = \<lparr> nrows = length ts, columns = [(''timestamp'', ts), (''value'', vs)] \<rparr>"
  define f1 where "f1 = put_column ''tag'' (replicate (length ts) (series_name d)) f0"
  define u where "u = dict_get d ''UnitsAbbreviation'' PNone"
  have wf0: "wf_frame f0" using len by (simp add: f0_def wf_frame_def)
  have n1: "nrows f1 = length ts" by (simp add: f1_def f0_def)
  have wf1: "wf_frame f1" unfolding f1_def by (rule wf_put_column [OF wf0]) (simp add: f0_def)
  have tag1: "map_of (columns f1) ''tag'' = Some (replicate (length ts) (series_name d))"
    unfolding f1_def by (rule map_of_put_column_same)
  have ts1: "map_of (columns f1) ''timestamp'' = Some ts"
    unfolding f1_def by (simp add: map_of_put_column_other f0_def)
  have vs1: "map_of (columns f1) ''value'' = Some vs"
    unfolding f1_def by (simp add: map_of_put_column_other f0_def)
  have sc: "set_column ''tag'' (series_name d) f0 = Inr f1"
    using nm by (simp add: set_column_scalar f1_def f0_def)
  obtain cells where cells: "length cells = nrows f1"
      "set_column ''unit'' u f1 = Inr (put_column ''unit'' cells f1)"
    using set_column_not_list [of u f1 "''unit''"] un by (auto simp: u_def)
  define f2 where "f2 = (if truthy u then put_column ''unit'' cells f1 else f1)"
  have df: "DataFrame_two_columns ''timestamp'' ts ''value'' (PList vs) = Inr f0"
    using len by (simp add: DataFrame_two_columns_def f0_def)
  have v3: "variant3 (PDict d) = Inr (Some f2)"
    using k1 k2 ts vs df sc cells(2)
    by (simp add: variant3_def and_then_def py_get_def
        series_name_def [symmetric] u_def [symmetric] f2_def)
  have "nrows f2 = length ts" by (simp add: f2_def n1)
  moreover have "wf_frame f2" using wf1 cells(1) by (simp add: f2_def wf_put_column)
  moreover have "map_of (columns f2) ''timestamp'' = Some ts"
    by (simp add: f2_def map_of_put_column_other ts1)
  moreover have "map_of (columns f2) ''value'' = Some vs"
    by (simp add: f2_def map_of_put_column_other vs1)
  moreover have "map_of (columns f2) ''tag'' = Some (replicate (length ts) (series_name d))"
    by (simp add: f2_def map_of_put_column_other tag1)
  ultimately show ?thesis using v3 by blast
qed

lemma variants12_skipped:
  assumes "variant3_shape d ts vs"
  shows "parse_json_variants (PDict d) =
         and_then (variant3 (PDict d)) (\<lambda>r3. case r3 of Some g \<Rightarrow> Inr g | None \<Rightarrow> Inr empty_frame)"
proof -
  have it: "case dict_get d ''Items'' PNone of PList (x # xs) \<Rightarrow> False | _ \<Rightarrow> True"
    using assms by (simp add: variant3_shape_def)
  show ?thesis
  proof (cases "dict_get d ''Items'' PNone")
    case (PList xs)
    with it have "xs = []" by (cases xs) auto
    with PList show ?thesis
      by (simp add: parse_json_variants_def and_then_def variant1_def variant2_def)
  qed (simp_all add: parse_json_variants_def and_then_def)
qed

text \<open>
  Claim C5. A response in the shape of variant 3, with \<^verbatim>\<open>Timestamps\<close> and \<^verbatim>\<open>Values\<close>
  lists of the same length N, parses to a frame of exactly N rows that pairs the two
  lists position by position, and the tag of every row is the shared series name taken
  from the top-level fields. For N above zero this frame is also what
  \<^verbatim>\<open>_parse_pi_response_to_df\<close> returns for a text that decodes to the response.
\<close>

theorem variant3_rows_and_tag:
  assumes "variant3_shape d ts vs"
  shows "\<exists>f. parse_json_variants (PDict d) = Inr f
     \<and> nrows f = length ts \<and> wf_frame f
     \<and> map_of (columns f) ''timestamp'' = Some ts
     \<and> map_of (columns f) ''value'' = Some vs
     \<and> map_of (columns f) ''tag'' = Some (replicate (length ts) (series_name d))
     \<and> (ts \<noteq> [] \<and> json_loads L text = Inr (PDict d) \<longrightarrow> parse_pi_response_to_df L text = Inr f)"
proof -
  obtain f where f: "variant3 (PDict d) = Inr (Some f)" "nrows f = length ts" "wf_frame f"
     "map_of (columns f) ''timestamp'' = Some ts"
     "map_of (columns f) ''value'' = Some vs"
     "map_of (columns f) ''tag'' = Some (replicate (length ts) (series_name d))"
    using variant3_frame [OF assms] by blast
  have p: "parse_json_variants (PDict d) = Inr f"
    by (simp add: variants12_skipped [OF assms] f(1) and_then_def)
  have "parse_pi_response_to_df L text = Inr f"
    if "ts \<noteq> []" "json_loads L text = Inr (PDict d)"
  proof -
    have "columns f \<noteq> []" using f(4) by auto
    then have "\<not> df_empty f" using that(1) f(2) by (simp add: df_empty_def)
    then show ?thesis
      using that(2) p
      by (simp add: parse_pi_response_to_df_def json_strategy_def and_then_def try_except_pass_def)
  qed
  with p f show ?thesis by blast
qed

theorem variant3_rows_and_tag_witness:
  "\<exists>f. parse_json_variants (PDict demo_paired) = Inr f \<and> nrows f = 2
     \<and> map_of (columns f) ''tag'' = Some [PStr ''tagA'', PStr ''tagA'']"
proof -
  have s: "variant3_shape demo_paired
      [PStr ''2025-06-01T00:00:00Z'', PStr ''2025-06-01T00:15:00Z''] [PNum 12.5, PNum 13]"
    by (simp add: variant3_shape_def demo_paired_def series_name_def dict_get_def py_or_def)
  have n: "series_name demo_paired = PStr ''tagA''"
    by (simp add: demo_paired_def series_name_def dict_get_def py_or_def)
  show ?thesis
    using variant3_rows_and_tag [OF s, of failing_lib "[]"] by (auto simp: n numeral_2_eq_2)
qed

section \<open>Validation at the boundaries\<close>

text \<open>
  Claim C7. When both dates parse and the start date is strictly after the end date,
  \<^verbatim>\<open>run_query\<close> shows the range error and does nothing else: \<^verbatim>\<open>execute_query\<close>, the
  only place that reaches the network, is not called. And when the parse of a fetched
  response has no rows, \<^verbatim>\<open>fetch_to_dataframe\<close> raises \<^verbatim>\<open>ValueError\<close> instead of
  returning a frame.
\<close>

theorem start_after_end_and_empty_parse_rejected:
  "(parse_iso (var_start g) = Some sd \<and> parse_iso (var_end g) = Some ed \<and> sd > ed \<longrightarrow>
      run_query parse_iso net g =
        [ShowError ''Invalid range'' ''Start Date must be on or before End Date.'']
      \<and> (\<forall>c p. ExecuteQuery c p \<notin> set (run_query parse_iso net g)))
   \<and> (parse_pi_response_to_df L (snd (execute_query net cfg params)) = Inr df \<and> nrows df = 0 \<longrightarrow>
      (\<exists>msg. fetch_to_dataframe net L cfg params = Inl (ValueError msg))
      \<and> (fst (execute_query net cfg params) = 200 \<longrightarrow>
           fetch_to_dataframe net L cfg params =
             Inl (ValueError ''Parsed DataFrame is empty (no usable rows).'')))"
proof -
  have a: "run_query parse_iso net g =
        [ShowError ''Invalid range'' ''Start Date must be on or before End Date.'']"
    if "parse_iso (var_start g) = Some sd" "parse_iso (var_end g) = Some ed" "sd > ed"
    using that by (simp add: run_query_def)
  have b: "fetch_to_dataframe net L cfg params =
             (if fst (execute_query net cfg params) = 200
              then Inl (ValueError ''Parsed DataFrame is empty (no usable rows).'')
              else Inl (ValueError (''API call failed: HTTP ''
                     @ py_str_nat (fst (execute_query net cfg params)) @ '' - ''
                     @ take 500 (snd (execute_query net cfg params)))))"
    if "parse_pi_response_to_df L (snd (execute_query net cfg params)) = Inr df" "nrows df = 0"
    using that
    by (cases "execute_query net cfg params")
       (simp add: fetch_to_dataframe_def and_then_def df_empty_def)
  show ?thesis using a b by auto
qed

theorem start_after_end_and_empty_parse_rejected_witness:
  "run_query demo_parse_iso demo_network demo_gui =
     [ShowError ''Invalid range'' ''Start Date must be on or before End Date.'']
   \<and> fetch_to_dataframe demo_network failing_lib demo_config demo_params =
       Inl (ValueError ''Parsed DataFrame is empty (no usable rows).'')"
proof -
  have 1: "demo_parse_iso (var_start demo_gui) = Some (2025, 6, 30)"
    and 2: "demo_parse_iso (var_end demo_gui) = Some (2025, 6, 1)"
    and 3: "((2025, 6, 30) :: nat \<times> nat \<times> nat) > (2025, 6, 1)"
    by (simp_all add: demo_parse_iso_def demo_gui_def)
  have e: "execute_query demo_network demo_config demo_params = (200, ''<html>Bad Gateway</html>'')"
    by (simp add: execute_query_def demo_network_def demo_config_def)
  have 4: "parse_pi_response_to_df failing_lib (snd (execute_query demo_network demo_config demo_params))
      = Inr empty_frame"
    by (simp add: e parse_pi_response_to_df_def json_strategy_def csv_strategy_def failing_lib_def
        and_then_def try_except_pass_def)
  have 5: "nrows empty_frame = 0" by (simp add: empty_frame_def)
  show ?thesis
    using start_after_end_and_empty_parse_rejected
      [of demo_parse_iso demo_gui "(2025, 6, 30)" "(2025, 6, 1)" demo_network failing_lib
          demo_config demo_params empty_frame] 1 2 3 4 5 e
    by simp
qed

section \<open>Stamping the aggregation kind\<close>

lemma has_col_put_column:
  "has_col (put_column name cells f) k \<longleftrightarrow> has_col f k \<or> k = name"
  by (force simp: has_col_def col_names_def put_column_def split: if_splits)

lemma filter_label_put_column_other:
  "k \<noteq> name \<Longrightarrow>
   filter (\<lambda>(k', c). k' = k) (columns (put_column name cells f)) =
   filter (\<lambda>(k', c). k' = k) (columns f)"
proof -
  assume ne: "k \<noteq> name"
  have "filter (\<lambda>(k', c). k' = k) (map (\<lambda>(k, c). if k = name then (k, cells) else (k, c)) cs)
        = filter (\<lambda>(k', c). k' = k) cs" for cs
    using ne by (induction cs) (auto split: if_splits)
  with ne show ?thesis by (simp add: put_column_def)
qed

lemma filter_label_absent:
  "\<not> has_col f k \<Longrightarrow> filter (\<lambda>(k', c). k' = k) (columns f) = []"
  by (force simp: has_col_def col_names_def filter_empty_conv)

lemma const_col_put_new:
  "\<not> has_col f name \<Longrightarrow> const_col name v (put_column name (replicate (nrows f) v) f)"
  by (simp add: const_col_def put_column_def filter_label_absent)

lemma const_col_put_other:
  "name \<noteq> other \<Longrightarrow> const_col name v f \<Longrightarrow> const_col name v (put_column other cells f)"
  by (simp add: const_col_def filter_label_put_column_other)

lemma filter_label_take_rows:
  "filter (\<lambda>(k, c). k = n) (columns (take_rows idx f)) =
   map (\<lambda>(k, c). (k, map (\<lambda>i. c ! i) idx)) (filter (\<lambda>(k, c). k = n) (columns f))"
  by (simp add: take_rows_def filter_map comp_def case_prod_unfold)

lemma has_col_take_rows: "has_col (take_rows idx f) k \<longleftrightarrow> has_col f k"
  by (simp add: has_col_def col_names_def take_rows_def comp_def case_prod_unfold)

lemma nrows_take_rows: "nrows (take_rows idx f) = length idx"
  by (simp add: take_rows_def)

lemma const_col_take_rows:
  assumes "const_col name v f" and "\<forall>i \<in> set idx. i < nrows f"
  shows "const_col name v (take_rows idx f)"
proof -
  have "map (\<lambda>i. replicate (nrows f) v ! i) idx = replicate (length idx) v"
    using assms(2) by (induction idx) auto
  with assms(1) show ?thesis
    by (simp add: const_col_def filter_label_take_rows nrows_take_rows)
qed

lemma dropna_subset_take_rows:
  "has_col f name \<Longrightarrow>
   \<exists>idx. dropna_subset name f = Inr (take_rows idx f) \<and> (\<forall>i \<in> set idx. i < nrows f)"
  by (auto simp: dropna_subset_def)

lemma sort_values_take_rows:
  assumes "filter (\<lambda>(k, c). k = name) (columns f) = [(k0, c0)]"
  shows "\<exists>idx. sort_values name f = Inr (take_rows idx f) \<and> (\<forall>i \<in> set idx. i < nrows f)"
proof -
  have "sort_values name f =
      Inr (take_rows (sort_key (\<lambda>i. time_key (c0 ! i)) [0..<nrows f]) f)"
    using assms by (simp add: sort_values_def)
  then show ?thesis by (intro exI [of _ "sort_key (\<lambda>i. time_key (c0 ! i)) [0..<nrows f]"]) simp
qed

lemma ensure_timestamp_const_col:
  assumes c: "const_col name v f" and ne: "name \<noteq> ''timestamp''"
    and one: "length (filter (\<lambda>(k, c). k = ''timestamp'') (columns f)) \<le> 1"
  shows "\<exists>g. ensure_timestamp L f = Inr g \<and> const_col name v g
             \<and> (\<forall>k. has_col g k \<longleftrightarrow> has_col f k)"
proof (cases "has_col f ''timestamp''")
  case False
  with c show ?thesis by (simp add: ensure_timestamp_def)
next
  case True
  then have "filter (\<lambda>(k, c). k = ''timestamp'') (columns f) \<noteq> []"
    by (auto simp: has_col_def col_names_def filter_empty_conv)
  with one obtain k0 c0 where kc: "filter (\<lambda>(k, c). k = ''timestamp'') (columns f) = [(k0, c0)]"
    by (cases "filter (\<lambda>(k, c). k = ''timestamp'') (columns f)") (auto simp: length_Suc_conv)
  then have "(k0, c0) \<in> set (filter (\<lambda>(k, c). k = ''timestamp'') (columns f))" by simp
  then have k0: "k0 = ''timestamp''" by simp
  define f1 where "f1 = put_column ''timestamp'' (to_datetime_column L c0) f"
  have c1: "const_col name v f1" unfolding f1_def by (rule const_col_put_other [OF ne c])
  have h1: "has_col f1 k \<longleftrightarrow> has_col f k" for k
    using True by (auto simp: f1_def has_col_put_column)
  have ts1: "filter (\<lambda>(k, c). k = ''timestamp'') (columns f1) = [(''timestamp'', to_datetime_column L c0)]"
  proof -
    have m: "filter (\<lambda>(k, c). k = ''timestamp'')
            (map (\<lambda>(k, c). if k = ''timestamp'' then (k, cells) else (k, c)) cs)
          = map (\<lambda>(k, c). (k, cells)) (filter (\<lambda>(k, c). k = ''timestamp'') cs)"
      for cs :: "(string \<times> pyval list) list" and cells
      by (induction cs) auto
    show ?thesis using True by (simp add: f1_def put_column_def m kc k0)
  qed
  obtain idx where idx: "dropna_subset ''timestamp'' f1 = Inr (take_rows idx f1)"
      "\<forall>i \<in> set idx. i < nrows f1"
    using dropna_subset_take_rows [of f1 "''timestamp''"] h1 True by blast
  define f2 where "f2 = take_rows idx f1"
  have c2: "const_col name v f2" unfolding f2_def by (rule const_col_take_rows [OF c1 idx(2)])
  have ts2: "filter (\<lambda>(k, c). k = ''timestamp'') (columns f2) =
      [(''timestamp'', map (\<lambda>i. to_datetime_column L c0 ! i) idx)]"
    by (simp add: f2_def filter_label_take_rows ts1)
  obtain idx2 where idx2: "sort_values ''timestamp'' f2 = Inr (take_rows idx2 f2)"
      "\<forall>i \<in> set idx2. i < nrows f2"
    using sort_values_take_rows [OF ts2] by blast
  have c3: "const_col name v (take_rows idx2 f2)" by (rule const_col_take_rows [OF c2 idx2(2)])
  have "ensure_timestamp L f = Inr (take_rows idx2 f2)"
    using True kc idx(1) idx2(1)
    by (simp add: ensure_timestamp_def and_then_def f1_def [symmetric] f2_def [symmetric])
  moreover have "has_col (take_rows idx2 f2) k \<longleftrightarrow> has_col f k" for k
    by (simp add: has_col_take_rows f2_def h1)
  ultimately show ?thesis using c3 by blast
qed

lemma filter_label_concat_select:
  "filter (\<lambda>(k, c). k = n) (concat (map (\<lambda>m. filter (\<lambda>(k, c). k = m) cs) names)) =
   concat (map (\<lambda>m. if m = n then filter (\<lambda>(k, c). k = n) cs else []) names)"
proof (induction names)
  case Nil
  then show ?case by simp
next
  case (Cons m names)
  have "filter (\<lambda>(k, c). k = n) (filter (\<lambda>(k, c). k = m) cs) =
        (if m = n then filter (\<lambda>(k, c). k = n) cs else [])"
    by (induction cs) auto
  with Cons show ?case by simp
qed

lemma concat_single_occurrence:
  "count_list names n = 1 \<Longrightarrow> concat (map (\<lambda>m. if m = n then xs else []) names) = xs"
proof (induction names)
  case Nil
  then show ?case by simp
next
  case (Cons m names)
  show ?case
  proof (cases "m = n")
    case True
    with Cons.prems have "count_list names n = 0" by simp
    then have "n \<notin> set names" by (simp add: count_list_0_iff)
    then have "concat (map (\<lambda>m. if m = n then xs else []) names) = []"
      by (induction names) auto
    with True show ?thesis by simp
  next
    case False
    with Cons show ?thesis by simp
  qed
qed

lemma normalize_column_order_const_col:
  assumes c: "const_col ''stat'' v f"
  shows "\<exists>g. normalize_column_order f = Inr g \<and> const_col ''stat'' v g"
proof -
  define ordered where
    "ordered = filter (has_col f) [''timestamp'', ''tag'', ''stat'', ''value'', ''unit'']"
  define rest where "rest = filter (\<lambda>c. c \<notin> set ordered) (col_names f)"
  have hs: "has_col f ''stat''"
    using c by (auto simp: const_col_def has_col_def col_names_def filter_eq_Cons_iff)
  have ok: "list_all (has_col f) (ordered @ rest)"
    by (auto simp: ordered_def rest_def list_all_iff has_col_def)
  have in_ord: "''stat'' \<in> set ordered" using hs by (simp add: ordered_def)
  have "count_list ordered ''stat'' = 1" using hs by (simp add: ordered_def)
  moreover have "count_list rest ''stat'' = 0"
    using in_ord by (simp add: rest_def count_list_0_iff)
  ultimately have cnt: "count_list (ordered @ rest) ''stat'' = 1" by simp
  define g where "g = f \<lparr> columns :=
      concat (map (\<lambda>n. filter (\<lambda>(k, c). k = n) (columns f)) (ordered @ rest)) \<rparr>"
  have "normalize_column_order f = select_columns (ordered @ rest) f"
    unfolding normalize_column_order_def Let_def ordered_def rest_def ..
  then have n: "normalize_column_order f = Inr g"
    using ok by (simp add: select_columns_def g_def)
  have "filter (\<lambda>(k, c). k = ''stat'') (columns g) =
      concat (map (\<lambda>m. if m = ''stat'' then filter (\<lambda>(k, c). k = ''stat'') (columns f) else [])
        (ordered @ rest))"
    by (simp add: g_def filter_label_concat_select del: map_append)
  also have "\<dots> = filter (\<lambda>(k, c). k = ''stat'') (columns f)"
    by (rule concat_single_occurrence [OF cnt])
  finally have "filter (\<lambda>(k, c). k = ''stat'') (columns g) =
      filter (\<lambda>(k, c). k = ''stat'') (columns f)" .
  then have "const_col ''stat'' v g" using c by (simp add: const_col_def g_def)
  with n show ?thesis by blast
qed

text \<open>
  Claim C6. Let the parse of a fetched response be a frame without a \<^verbatim>\<open>stat\<close> column (not
  empty, its timestamp label not repeated), and let the caller have requested at least
  one aggregation kind. Then \<^verbatim>\<open>fetch_to_dataframe\<close> returns a frame with one \<^verbatim>\<open>stat\<close>
  column, which on every row holds the requested kind when exactly one was requested,
  and the null value when more than one was.
\<close>

theorem stat_stamped_from_request:
  assumes q: "execute_query net cfg params = (200, text)"
    and p: "parse_pi_response_to_df L text = Inr df"
    and ne: "\<not> df_empty df"
    and ns: "\<not> has_col df ''stat''"
    and one: "length (filter (\<lambda>(k, c). k = ''timestamp'') (columns df)) \<le> 1"
    and ds: "ds = (case datasets params of None \<Rightarrow> [] | Some ds \<Rightarrow> ds)"
    and some: "ds \<noteq> []"
  shows "\<exists>out. fetch_to_dataframe net L cfg params = Inr out
     \<and> const_col ''stat'' (if length ds = 1 then PStr (ds ! 0) else PNone) out"
proof -
  let ?v = "if length ds = 1 then PStr (ds ! 0) else PNone"
  define f1 where "f1 = put_column ''stat'' (replicate (nrows df) ?v) df"
  have l: "length ds = 1 \<or> length ds > 1" using some by (cases ds) auto
  have s: "stamp_stat params df = Inr f1"
    using ns l ds by (auto simp: stamp_stat_def set_column_def f1_def Let_def)
  have c1: "const_col ''stat'' ?v f1" unfolding f1_def by (rule const_col_put_new [OF ns])
  have one1: "length (filter (\<lambda>(k, c). k = ''timestamp'') (columns f1)) \<le> 1"
    using one by (simp add: f1_def filter_label_put_column_other)
  obtain f2 where f2: "ensure_timestamp L f1 = Inr f2" "const_col ''stat'' ?v f2"
    using ensure_timestamp_const_col [OF c1 _ one1, of L] by auto
  have c3: "const_col ''stat'' ?v (attach_unit params f2)"
    using f2(2) by (simp add: attach_unit_def const_col_put_other)
  obtain out where out: "normalize_column_order (attach_unit params f2) = Inr out"
      "const_col ''stat'' ?v out"
    using normalize_column_order_const_col [OF c3] by blast
  have "fetch_to_dataframe net L cfg params = Inr out"
    using q p ne s f2(1) out(1) by (simp add: fetch_to_dataframe_def and_then_def)
  with out(2) show ?thesis by blast
qed

lemma demo_execute_query:
  "execute_query demo_network demo_config demo_params = (200, ''<html>Bad Gateway</html>'')"
  by (simp add: execute_query_def demo_network_def demo_config_def)

lemma demo_parse:
  "parse_pi_response_to_df demo_lib t =
     Inr \<lparr> nrows = 2,
           columns = [(''timestamp'', [PStr ''2025-06-01T00:00:00Z'', PStr ''2025-06-01T00:15:00Z'']),
                      (''value'', [PNum 12.5, PNum 13]),
                      (''tag'', [PStr ''tagA'', PStr ''tagA''])] \<rparr>"
  by (simp add: parse_pi_response_to_df_def json_strategy_def demo_lib_def demo_paired_def
      parse_json_variants_def variant3_def DataFrame_two_columns_def set_column_def
      put_column_def has_col_def col_names_def py_get_def dict_get_def py_or_def
      and_then_def try_except_pass_def df_empty_def numeral_2_eq_2)

theorem stat_stamped_from_request_witness:
  "\<exists>out. fetch_to_dataframe demo_network demo_lib demo_config demo_params = Inr out
     \<and> const_col ''stat'' (PStr ''Average'') out"
proof -
  have d: "[''Average''] = (case datasets demo_params of None \<Rightarrow> [] | Some ds \<Rightarrow> ds)"
    by (simp add: demo_params_def build_api_params_def Let_def)
  show ?thesis
    using stat_stamped_from_request [OF demo_execute_query demo_parse _ _ _ d]
    by (simp add: df_empty_def has_col_def col_names_def)
qed

section \<open>Resampling (resample\_timeseries)\<close>

subsection \<open>Rows of a table\<close>








subsection \<open>Labels\<close>





subsection \<open>The frame of one group\<close>





subsection \<open>Stacking, reordering and sorting the group frames\<close>




subsection \<open>The rows of the resampled frame\<close>








subsection \<open>The windows\<close>







section \<open>One row for every window\<close>




section \<open>The cache artifact path is a function of the dictionary's content\<close>

lemma dict_items_eq:
  assumes "distinct (map fst d1)" "distinct (map fst d2)" "map_of d1 = map_of d2"
  shows "set d1 = set d2"
proof -
  have "\<And>k v. (k, v) \<in> set d1 \<longleftrightarrow> (k, v) \<in> set d2"
    using assms by (metis map_of_eq_Some_iff)
  then show ?thesis by auto
qed

lemma sort_key_dict_eq:
  assumes "distinct (map fst d1)" "distinct (map fst d2)" "map_of d1 = map_of d2"
  shows "sort_key fst d1 = sort_key fst d2"
proof (rule map_sorted_distinct_set_unique [where f = fst])
  have s: "set d1 = set d2" by (rule dict_items_eq [OF assms])
  show "inj_on fst (set (sort_key fst d1) \<union> set (sort_key fst d2))"
    using assms(1) s by (simp add: distinct_map)
  show "sorted (map fst (sort_key fst d1))" "sorted (map fst (sort_key fst d2))" by simp_all
  show "distinct (map fst (sort_key fst d1))" using assms(1) by (simp add: distinct_map)
  show "distinct (map fst (sort_key fst d2))" using assms(2) by (simp add: distinct_map)
  show "set (sort_key fst d1) = set (sort_key fst d2)" using s by simp
qed

text \<open>
  Claim C9. Two query-parameter dictionaries that are equal as key-value maps, in
  whatever order their keys were inserted, get the same cache artifact path; and the
  path is the temp directory, a separator, the prefix \<^verbatim>\<open>pi_cache_\<close>, the first 16
  characters of the hex digest of the JSON serialization whose members are sorted by
  key, and the extension \<^verbatim>\<open>.parquet\<close>.
\<close>

theorem cache_path_order_independent:
  assumes "distinct (map fst d1)" and "distinct (map fst d2)" and "map_of d1 = map_of d2"
  shows "cache_path sha tmp d1 = cache_path sha tmp d2
         \<and> cache_path sha tmp d1 =
             tmp @ ''/pi_cache_'' @ take 16 (sha (json_dumps_items (sort_key fst d1))) @ ''.parquet''
         \<and> sorted (map fst (sort_key fst d1))
         \<and> set (sort_key fst d1) = set d1"
proof -
  have "json_dumps_sorted d1 = json_dumps_sorted d2"
    by (simp add: json_dumps_sorted_def sort_key_dict_eq [OF assms])
  then have "cache_path sha tmp d1 = cache_path sha tmp d2"
    by (simp add: cache_path_def)
  moreover have "cache_path sha tmp d1 =
      tmp @ ''/pi_cache_'' @ take 16 (sha (json_dumps_items (sort_key fst d1))) @ ''.parquet''"
    by (simp add: cache_path_def json_dumps_sorted_def)
  moreover have "sorted (map fst (sort_key fst d1))" and "set (sort_key fst d1) = set d1"
    by simp_all
  ultimately show ?thesis by blast
qed

theorem cache_path_order_independent_witness:
  "cache_path demo_hexdigest ''/tmp''
     [(''start_date'', KStr ''2025-06-01''), (''multi_phase'', KBool True)] =
   cache_path demo_hexdigest ''/tmp''
     [(''multi_phase'', KBool True), (''start_date'', KStr ''2025-06-01'')]"
proof -
  have m: "map_of [(''start_date'', KStr ''2025-06-01''), (''multi_phase'', KBool True)] =
           map_of [(''multi_phase'', KBool True), (''start_date'', KStr ''2025-06-01'')]"
    by (rule ext) simp
  show ?thesis
    by (rule cache_path_order_independent
          [OF _ _ m, of demo_hexdigest "''/tmp''", THEN conjunct1]) simp_all
qed

end
